theory Spec2Isabelle
  imports Complex_Main "HOL-Library.AList" "HOL-Library.Log_Nat"
begin

section \<open>Values, checks and generators\<close>

text \<open>
  JavaScript numbers are IEEE 754 doubles. Every finite double is a rational number, and
  the model holds a number as that rational (\<open>rat\<close>). The result of an arithmetic
  operation of the source is the exact result rounded to the nearest double, ties to the
  even significand; \<open>dbl\<close> is that rounding, with the subnormal range below \<open>2^-1022\<close>.
  A literal such as \<open>0.001\<close> is the double \<open>dbl (1 / 1000)\<close>. NaN, the two infinities and the
  negative zero are not represented: the values of the checks are finite doubles other
  than \<open>-0\<close>, and where a result of the source is not finite the model stops (see
  \<open>NonFiniteArithmetic\<close>). Lengths, sizes and the bounds handed to \<open>fc.integer\<close> are
  integers.
\<close>

text \<open>The exponent \<open>e\<close> with \<open>2^e \<le> |x| < 2^(e+1)\<close>, for \<open>x\<close> other than zero.\<close>

definition binade :: "rat \<Rightarrow> int" where
  "binade x =
     (let k = bitlen (fst (quotient_of \<bar>x\<bar>)) - bitlen (snd (quotient_of \<bar>x\<bar>))
      in if 2 powi k \<le> \<bar>x\<bar> then k else k - 1)"

definition round_half_even :: "rat \<Rightarrow> int" where
  "round_half_even q =
     (let f = \<lfloor>q\<rfloor>; r = q - of_int f
      in if r < 1 / 2 then f else if 1 / 2 < r then f + 1 else if even f then f else f + 1)"

definition dbl :: "rat \<Rightarrow> rat" where
  "dbl x =
     (if x = 0 then 0
      else (let e = max (binade x) (- 1022); ulp = 2 powi (e - 52)
            in of_int (round_half_even (x / ulp)) * ulp))"

text \<open>\<open>Number.MAX_VALUE\<close>; a rounded result beyond it is an infinity in the source.\<close>

definition MAX_VALUE :: rat where
  "MAX_VALUE = of_int ((2 ^ 53 - 1) * 2 ^ 971)"

definition finite_double :: "rat \<Rightarrow> bool" where
  "finite_double r \<longleftrightarrow> \<bar>r\<bar> \<le> MAX_VALUE"

datatype jsvalue =
    VUndefined
  | VNull
  | VBool bool
  | VNum rat
  | VNaN
  | VStr string
  | VBigInt int

text \<open>
  A check of a checks list, by its tag \<open>check._zod.def.check\<close> and the fields of its
  definition that the builders read. \<open>Custom\<close> carries \<open>check._zod.def.fn\<close> (\<open>None\<close> when
  that field is not a function); \<open>OtherCheck\<close> is any other tag.
\<close>

datatype check =
    MinLength int
  | MaxLength int
  | LengthEquals int
  | MinSize int
  | MaxSize int
  | SizeEquals int
  | Trim
  | StringFormat (format: string) (precision: "int option") (offset: "bool option")
      (prefix: string) (suffix: string)
  | GreaterThan rat bool
  | LessThan rat bool
  | NumberFormat string
  | MultipleOf rat
  | Custom "(rat \<Rightarrow> jsvalue) option"
  | OtherCheck string

text \<open>The checks of a bigint schema carry bigint values.\<close>

datatype bigint_check =
    BigGreaterThan int bool
  | BigLessThan int bool
  | BigMultipleOf int
  | BigOtherCheck string

text \<open>
  The generators of fast-check are external; the model records which constructor or
  combinator the source calls and with which arguments. The functions handed to
  \<open>.map\<close> and \<open>.filter\<close> are named by what the source writes there. A schema is
  referred to by its identity.
\<close>

datatype predicate =
    ZodEmailRegexTest
  | LengthAtLeast int
  | LengthWithin int int
  | NotTiny
  | SafeParseSuccess nat
  | IsUnionMemberSuccess
  | ThrowIfSuccessRateBelow rat predicate string

datatype mapping =
    Prepend string
  | Append string
  | Times rat
  | NewMap
  | NewSet
  | ConstantFunction
  | PromiseResolve
  | ObjectFreeze
  | ToSymbol
  | SafeParse nat
  | ParsedData

datatype arbitrary =
    FcString
  | FcStringBetween int int
  | FcEmailAddress
  | FcWebUrl
  | FcUuid
  | CreateCuidArb
  | CreateDatetimeStringArb "int option" bool
  | FcDouble rat rat
  | FcInteger int int
  | FcBigInt
  | FcBigIntBetween "int option" "int option"
  | FcBoolean
  | FcDate
  | FcConstant jsvalue
  | FcAnything
  | FcArray arbitrary
  | FcArrayBetween arbitrary int "int option"
  | FcUniqueArray arbitrary int "int option"
  | FcRecord "(string \<times> arbitrary) list"
  | FcOneof "arbitrary list"
  | FcTuple "arbitrary list"
  | FcDictionary arbitrary arbitrary
  | FcOption arbitrary jsvalue nat
  | FcMap arbitrary mapping
  | FcFilter arbitrary predicate
  | UserArbitrary nat

text \<open>
  What fast-check documents about the values of three of its generators:
  \<open>fc.string({minLength, maxLength})\<close> yields strings whose length lies between the two
  bounds, \<open>fc.constant(v)\<close> yields \<open>v\<close>, and \<open>fc.integer({min, max}).map(x => x * f)\<close>
  yields the double product of \<open>f\<close> and an integer between the bounds; a product that is
  not finite is an infinity, which is no value of the model. Of every other generator
  nothing is assumed: it may yield any value.
\<close>

fun may_generate :: "arbitrary \<Rightarrow> jsvalue \<Rightarrow> bool" where
  "may_generate (FcStringBetween lo hi) v =
     (case v of VStr s \<Rightarrow> lo \<le> int (length s) \<and> int (length s) \<le> hi | _ \<Rightarrow> False)"
| "may_generate (FcConstant c) v = (v = c)"
| "may_generate (FcMap (FcInteger lo hi) (Times f)) v =
     (case v of
        VNum x \<Rightarrow> finite_double x \<and> x \<in> (\<lambda>k. dbl (of_int k * f)) ` {lo..hi}
      | _ \<Rightarrow> False)"
| "may_generate _ v = True"

section \<open>Errors\<close>

text \<open>
  A message is a template literal: pieces of text and interpolated numbers, in order.
\<close>

datatype fragment = Lit string | Num int

datatype error =
    ZodFastCheckUnsupportedSchemaError "fragment list"
  | ZodFastCheckGenerationError "fragment list"
  | FcDoubleRangeError
  | NonFiniteArithmetic

text \<open>
  \<open>FcDoubleRangeError\<close> is the \<open>Error\<close> that \<open>fc.double\<close> throws, when it is called, if its
  \<open>min\<close> exceeds its \<open>max\<close>. \<open>NonFiniteArithmetic\<close> is not an error of the source: it
  marks the places where the source goes on with an infinity or NaN, which the model does
  not represent: a division by a zero factor, and a product or quotient beyond
  \<open>Number.MAX_VALUE\<close>.
\<close>

text \<open>The apostrophe and the double quote, which a string literal cannot hold.\<close>

definition apostrophe :: string where
  "apostrophe = [CHR 0x27]"

definition dquote :: string where
  "dquote = [CHR 0x22]"

definition path_or_dot :: "string \<Rightarrow> string" where
  "path_or_dot path = (if path = [] then ''.'' else path)"

definition unsupported :: "string \<Rightarrow> string \<Rightarrow> error" where
  "unsupported schemaTypeName path =
     ZodFastCheckUnsupportedSchemaError
       [Lit ''Unable to generate valid values for Zod schema. '',
        Lit apostrophe, Lit schemaTypeName, Lit apostrophe,
        Lit '' schemas are not supported (at path '', Lit apostrophe,
        Lit (path_or_dot path), Lit apostrophe, Lit '').'']"

section \<open>The success-rate guard\<close>

definition MIN_SUCCESS_RATE :: rat where
  "MIN_SUCCESS_RATE = 1 / 100"

definition MIN_RUNS :: nat where
  "MIN_RUNS = 1000"

text \<open>
  The closure returned by \<open>throwIfSuccessRateBelow\<close> owns two counters; a call updates
  them before it compares, so the counters a raising call leaves behind include that call.
  The ratio \<open>successful / total\<close> of two counts is compared with the rate exactly; for
  counts below \<open>10^15\<close> the double comparison of the source gives the same answer.
\<close>

record guard_state =
  successful :: nat
  total :: nat

definition guard_init :: guard_state where
  "guard_init = \<lparr>successful = 0, total = 0\<rparr>"

definition override_message :: "string \<Rightarrow> fragment list" where
  "override_message path =
     [Lit ''Unable to generate valid values for Zod schema. '',
      Lit ''An override is must be provided for the schema at path '', Lit apostrophe,
      Lit (path_or_dot path), Lit apostrophe, Lit ''.'']"

definition throwIfSuccessRateBelow ::
  "rat \<Rightarrow> ('v \<Rightarrow> bool) \<Rightarrow> string \<Rightarrow> guard_state \<Rightarrow> 'v \<Rightarrow> (error + bool) \<times> guard_state" where
  "throwIfSuccessRateBelow rate pred path st v =
     (let isSuccess = pred v;
          st1 = st\<lparr>total := total st + 1\<rparr>;
          st2 = (if isSuccess then st1\<lparr>successful := successful st1 + 1\<rparr> else st1)
      in if total st2 > MIN_RUNS \<and> of_nat (successful st2) / of_nat (total st2) < rate
         then (Inl (ZodFastCheckGenerationError (override_message path)), st2)
         else (Inr isSuccess, st2))"

text \<open>
  The same closure called on a sequence of candidate values, one after the other; the
  outcomes are listed in call order and the counters are threaded through.
\<close>

fun guard_calls ::
  "rat \<Rightarrow> ('v \<Rightarrow> bool) \<Rightarrow> string \<Rightarrow> guard_state \<Rightarrow> 'v list \<Rightarrow> (error + bool) list \<times> guard_state" where
  "guard_calls rate pred path st [] = ([], st)"
| "guard_calls rate pred path st (v # vs) =
     (let (r, st1) = throwIfSuccessRateBelow rate pred path st v;
          (rs, st2) = guard_calls rate pred path st1 vs
      in (r # rs, st2))"

section \<open>Constraint interpreters\<close>

definition filterArbitraryBySchema :: "arbitrary \<Rightarrow> nat \<Rightarrow> string \<Rightarrow> arbitrary" where
  "filterArbitraryBySchema arb schema path =
     FcFilter arb (ThrowIfSuccessRateBelow MIN_SUCCESS_RATE (SafeParseSuccess schema) path)"

subsection \<open>String\<close>

record string_bounds =
  minLength :: int
  maxLength :: "int option"
  hasUnsupportedCheck :: bool
  mappings :: "mapping list"

definition string_init :: string_bounds where
  "string_init = \<lparr>minLength = 0, maxLength = None, hasUnsupportedCheck = False, mappings = []\<rparr>"

text \<open>
  The loop over the checks of a string schema. \<open>Inl\<close> is a \<open>return\<close> from inside the
  loop; \<open>Inr\<close> is the state with which the loop ends.
\<close>

fun string_checks :: "string_bounds \<Rightarrow> check list \<Rightarrow> arbitrary + string_bounds" where
  "string_checks st [] = Inr st"
| "string_checks st (MinLength minimum # cs) =
     string_checks (st\<lparr>minLength := max (minLength st) minimum\<rparr>) cs"
| "string_checks st (MaxLength maximum # cs) =
     string_checks
       (st\<lparr>maxLength := Some (case maxLength st of None \<Rightarrow> maximum | Some m \<Rightarrow> min m maximum)\<rparr>) cs"
| "string_checks st (LengthEquals n # cs) =
     string_checks (st\<lparr>minLength := n, maxLength := Some n\<rparr>) cs"
| "string_checks st (Trim # cs) = string_checks st cs"
| "string_checks st (StringFormat fmt prec off pre suf # cs) =
     (if fmt = ''datetime'' then
        Inl (CreateDatetimeStringArb prec (case off of None \<Rightarrow> False | Some b \<Rightarrow> b))
      else if fmt = ''email'' then string_checks st cs
      else if fmt = ''url'' then Inl FcWebUrl
      else if fmt = ''uuid'' then Inl FcUuid
      else if fmt = ''cuid'' then Inl CreateCuidArb
      else if fmt = ''starts_with'' then
        string_checks (st\<lparr>mappings := mappings st @ [Prepend pre]\<rparr>) cs
      else if fmt = ''ends_with'' then
        string_checks (st\<lparr>mappings := mappings st @ [Append suf]\<rparr>) cs
      else string_checks (st\<lparr>hasUnsupportedCheck := True\<rparr>) cs)"
| "string_checks st (c # cs) = string_checks (st\<lparr>hasUnsupportedCheck := True\<rparr>) cs"

definition hasEmailFormat :: "check list \<Rightarrow> bool" where
  "hasEmailFormat checks =
     list_ex (\<lambda>c. case c of StringFormat fmt prec off pre suf \<Rightarrow> fmt = ''email'' | _ \<Rightarrow> False) checks"

definition string_builder :: "check list option \<Rightarrow> nat \<Rightarrow> string \<Rightarrow> arbitrary" where
  "string_builder checks schema path =
     (case checks of
        None \<Rightarrow> FcString
      | Some cs \<Rightarrow>
          (case string_checks string_init cs of
             Inl returned \<Rightarrow> returned
           | Inr st \<Rightarrow>
               if hasEmailFormat cs then
                 (let emailArb = FcFilter FcEmailAddress ZodEmailRegexTest
                  in case maxLength st of
                       Some maxLen \<Rightarrow> FcFilter emailArb (LengthWithin (minLength st) maxLen)
                     | None \<Rightarrow> FcFilter emailArb (LengthAtLeast (minLength st)))
               else
                 (let maxLen = (case maxLength st of None \<Rightarrow> 2 * minLength st + 10 | Some m \<Rightarrow> m);
                      unfiltered = foldl FcMap (FcStringBetween (minLength st) maxLen) (mappings st)
                  in if hasUnsupportedCheck st
                     then filterArbitraryBySchema unfiltered schema path
                     else unfiltered)))"

subsection \<open>Number\<close>

definition MAX_SAFE_INTEGER :: int where
  "MAX_SAFE_INTEGER = 9007199254740991"

definition MIN_SAFE_INTEGER :: int where
  "MIN_SAFE_INTEGER = - 9007199254740991"

record number_bounds =
  min_v :: rat
  max_v :: "rat option"
  hasExplicitMax :: bool
  isFinite :: bool
  multipleOf :: "rat option"
  hasSafeIntFormat :: bool
  customChecks :: "check list"

definition number_init :: number_bounds where
  "number_init =
     \<lparr>min_v = - 1000000, max_v = None, hasExplicitMax = False, isFinite = False,
      multipleOf = None, hasSafeIntFormat = False, customChecks = []\<rparr>"

text \<open>
  One iteration of the first pass over the checks of a number schema. The offset of an
  exclusive bound is the literal \<open>0.001\<close>, added or subtracted in double arithmetic;
  \<open>None\<close> is a multiple-of product that is not finite.
\<close>

fun number_check :: "number_bounds \<Rightarrow> check \<Rightarrow> number_bounds option" where
  "number_check st (GreaterThan v inclusive) =
     Some (st\<lparr>min_v := max (min_v st) (if inclusive then v else dbl (v + dbl (1 / 1000)))\<rparr>)"
| "number_check st (LessThan v inclusive) =
     (let ltValue = (if inclusive then v else dbl (v - dbl (1 / 1000)))
      in Some (st\<lparr>isFinite := True, hasExplicitMax := True,
                  max_v := Some (case max_v st of None \<Rightarrow> ltValue | Some m \<Rightarrow> min m ltValue)\<rparr>))"
| "number_check st (NumberFormat fmt) =
     (if fmt = ''int32'' \<or> fmt = ''uint32'' \<or> fmt = ''safeint'' then
        (let st1 = st\<lparr>multipleOf := Some (case multipleOf st of None \<Rightarrow> 1 | Some m \<Rightarrow> m)\<rparr>
         in if fmt = ''safeint'' then Some (st1\<lparr>hasSafeIntFormat := True\<rparr>) else Some st1)
      else Some st)"
| "number_check st (MultipleOf v) =
     (let product = dbl ((case multipleOf st of None \<Rightarrow> 1 | Some m \<Rightarrow> m) * v)
      in if finite_double product then Some (st\<lparr>multipleOf := Some product\<rparr>) else None)"
| "number_check st (Custom fn) = Some (st\<lparr>customChecks := customChecks st @ [Custom fn]\<rparr>)"
| "number_check st c = Some st"

text \<open>The loop of the first pass.\<close>

fun number_checks :: "number_bounds \<Rightarrow> check list \<Rightarrow> number_bounds option" where
  "number_checks st [] = Some st"
| "number_checks st (c # cs) =
     (case number_check st c of None \<Rightarrow> None | Some st1 \<Rightarrow> number_checks st1 cs)"

text \<open>The safe integer range is applied after all the checks have been read.\<close>

definition safe_int_range :: "number_bounds \<Rightarrow> number_bounds" where
  "safe_int_range st =
     (if hasSafeIntFormat st then
        st\<lparr>min_v := max (min_v st) (of_int MIN_SAFE_INTEGER),
           max_v := Some (case max_v st of
                            None \<Rightarrow> of_int MAX_SAFE_INTEGER
                          | Some m \<Rightarrow> min m (of_int MAX_SAFE_INTEGER))\<rparr>
      else st)"

text \<open>The bounds of a number schema as they stand when the generator is built.\<close>

definition number_resolve :: "check list \<Rightarrow> number_bounds option" where
  "number_resolve checks = map_option safe_int_range (number_checks number_init checks)"

definition final_max :: "number_bounds \<Rightarrow> rat" where
  "final_max st = (case max_v st of None \<Rightarrow> of_int MAX_SAFE_INTEGER | Some m \<Rightarrow> m)"

definition inverted_bounds_message :: "string \<Rightarrow> int \<Rightarrow> int \<Rightarrow> fragment list" where
  "inverted_bounds_message path integerMin integerMax =
     [Lit ''Unable to generate valid integer values for schema at '',
      Lit dquote, Lit path, Lit dquote, Lit '': '',
      Lit ''computed min ('', Num integerMin, Lit '') is greater than max ('',
      Num integerMax, Lit ''). '',
      Lit ''This may occur when constraints are impossible to satisfy (e.g., min > max). '',
      Lit ''An override is must be provided for this schema.'']"

text \<open>
  The base generator: integers scaled by the factor when a multiple-of factor is set,
  doubles otherwise. \<open>final_max\<close> is \<open>max ?? Number.MAX_SAFE_INTEGER\<close>. The quotients
  \<open>min / factor\<close>, \<open>finalMax / factor\<close> and \<open>Number.MAX_SAFE_INTEGER / factor\<close> are double
  quotients; \<open>integer_max\<close> is the upper integer bound after the clip that the safe integer
  format adds. On the float path \<open>fc.double\<close> is called with the two bounds and throws when
  the lower one exceeds the upper one.
\<close>

definition quotients_finite :: "number_bounds \<Rightarrow> rat \<Rightarrow> bool" where
  "quotients_finite st factor \<longleftrightarrow>
     finite_double (dbl (min_v st / factor)) \<and>
     finite_double (dbl (final_max st / factor)) \<and>
     (hasSafeIntFormat st \<longrightarrow> finite_double (dbl (of_int MAX_SAFE_INTEGER / factor)))"

definition integer_max :: "number_bounds \<Rightarrow> rat \<Rightarrow> int" where
  "integer_max st factor =
     (if hasSafeIntFormat st
      then min \<lfloor>dbl (final_max st / factor)\<rfloor> \<lfloor>dbl (of_int MAX_SAFE_INTEGER / factor)\<rfloor>
      else \<lfloor>dbl (final_max st / factor)\<rfloor>)"

definition number_base :: "number_bounds \<Rightarrow> string \<Rightarrow> error + arbitrary" where
  "number_base st path =
     (case multipleOf st of
        Some factor \<Rightarrow>
          if factor = 0 \<or> \<not> quotients_finite st factor then Inl NonFiniteArithmetic
          else
            (let integerMin = \<lceil>dbl (min_v st / factor)\<rceil>;
                 integerMax = integer_max st factor
             in if integerMin > integerMax
                then Inl (ZodFastCheckGenerationError
                            (inverted_bounds_message path integerMin integerMax))
                else Inr (FcMap (FcInteger integerMin integerMax) (Times factor)))
      | None \<Rightarrow>
          (let doubleMin = max (min_v st) (- 1000000);
               doubleMax = (case max_v st of
                              Some m \<Rightarrow> min m (of_int MAX_SAFE_INTEGER)
                            | None \<Rightarrow> 1000000)
           in if doubleMin > doubleMax then Inl FcDoubleRangeError
              else Inr (FcFilter (FcDouble doubleMin doubleMax) NotTiny)))"

subsection \<open>Refinement pattern detection\<close>

text \<open>The remainder operator of JavaScript on integers: the sign is the dividend's.\<close>

definition js_rem :: "int \<Rightarrow> int \<Rightarrow> int" where
  "js_rem a b = sgn a * (\<bar>a\<bar> mod \<bar>b\<bar>)"

definition testValues :: "int list" where
  "testValues = [0, 1, 2, 3, 6, 9, 12, - 3, - 6]"

fun modulo_probe :: "(rat \<Rightarrow> jsvalue) \<Rightarrow> int list \<Rightarrow> int option" where
  "modulo_probe fn [] = None"
| "modulo_probe fn (testVal # rest) =
     (if fn (of_int testVal) = VBool True \<and> js_rem testVal 3 = 0 then
        (if fn 1 = VBool False \<and> fn 2 = VBool False \<and> fn 4 = VBool False
         then Some 3
         else modulo_probe fn rest)
      else modulo_probe fn rest)"

fun equality_probe :: "(rat \<Rightarrow> jsvalue) \<Rightarrow> int list \<Rightarrow> rat \<Rightarrow> rat \<Rightarrow> arbitrary option" where
  "equality_probe fn [] lo hi = None"
| "equality_probe fn (testVal # rest) lo hi =
     (if fn (of_int testVal) = VBool True
         \<and> fn (of_int (testVal - 1)) = VBool False \<and> fn (of_int (testVal + 1)) = VBool False
         \<and> of_int testVal \<ge> lo \<and> of_int testVal \<le> hi
      then Some (FcConstant (VNum (of_int testVal)))
      else equality_probe fn rest lo hi)"

definition tryGenerateSmartlyForRefinement :: "check \<Rightarrow> rat \<Rightarrow> rat \<Rightarrow> arbitrary option" where
  "tryGenerateSmartlyForRefinement chk lo hi =
     (case chk of
        Custom (Some refinementFn) \<Rightarrow>
          (let moduloDivisor = modulo_probe refinementFn testValues;
               multiples =
                 (case moduloDivisor of
                    None \<Rightarrow> None
                  | Some d \<Rightarrow>
                      (let intMin = \<lceil>dbl (lo / of_int d)\<rceil>; intMax = \<lfloor>dbl (hi / of_int d)\<rfloor>
                       in if intMin \<le> intMax
                          then Some (FcMap (FcInteger intMin intMax) (Times (of_int d)))
                          else None))
           in case multiples of
                Some arb \<Rightarrow> Some arb
              | None \<Rightarrow> equality_probe refinementFn [- 42, 0, 42, 100, - 100] lo hi)
      | _ \<Rightarrow> None)"

text \<open>The loop over the custom checks: the first detected pattern wins.\<close>

fun first_smart :: "check list \<Rightarrow> rat \<Rightarrow> rat \<Rightarrow> arbitrary option" where
  "first_smart [] lo hi = None"
| "first_smart (customCheck # rest) lo hi =
     (case tryGenerateSmartlyForRefinement customCheck lo hi of
        Some smart \<Rightarrow> Some smart
      | None \<Rightarrow> first_smart rest lo hi)"

text \<open>The upper bound handed to the pattern detection.\<close>

definition refinement_max :: "number_bounds \<Rightarrow> rat" where
  "refinement_max st =
     (case max_v st of
        Some m \<Rightarrow> m
      | None \<Rightarrow> if hasSafeIntFormat st then of_int MAX_SAFE_INTEGER else 1000000)"

definition number_builder :: "check list option \<Rightarrow> nat \<Rightarrow> string \<Rightarrow> error + arbitrary" where
  "number_builder checks schema path =
     (case checks of
        None \<Rightarrow> Inr (FcFilter (FcDouble (- 1000000) 1000000) NotTiny)
      | Some cs \<Rightarrow>
          (case number_resolve cs of
             None \<Rightarrow> Inl NonFiniteArithmetic
           | Some st \<Rightarrow>
               (case number_base st path of
                  Inl e \<Rightarrow> Inl e
                | Inr arb \<Rightarrow>
                    if customChecks st \<noteq> [] then
                      (let finalMax = refinement_max st
                       in case first_smart (customChecks st) (min_v st) finalMax of
                            Some smartArbitrary \<Rightarrow> Inr smartArbitrary
                          | None \<Rightarrow> Inr (filterArbitraryBySchema arb schema path))
                    else Inr arb)))"

subsection \<open>Bigint, array, set, literal and enum\<close>

fun bigint_read :: "int option \<times> int option \<Rightarrow> bigint_check \<Rightarrow> int option \<times> int option" where
  "bigint_read (lo, hi) (BigGreaterThan v inclusive) =
     (let gtValue = (if inclusive then v else v + 1)
      in (Some (case lo of None \<Rightarrow> gtValue | Some m \<Rightarrow> if gtValue < m then gtValue else m), hi))"
| "bigint_read (lo, hi) (BigLessThan v inclusive) =
     (let ltValue = (if inclusive then v else v - 1)
      in (lo, Some (case hi of None \<Rightarrow> ltValue | Some m \<Rightarrow> if ltValue > m then ltValue else m)))"
| "bigint_read (lo, hi) c = (lo, hi)"

definition bigint_builder :: "bigint_check list option \<Rightarrow> arbitrary" where
  "bigint_builder checks =
     (case checks of
        None \<Rightarrow> FcBigInt
      | Some cs \<Rightarrow> (case foldl bigint_read (None, None) cs of (lo, hi) \<Rightarrow> FcBigIntBetween lo hi))"

text \<open>
  The loops of the array and the set builder assign: the pair is \<open>(minLength, maxLength)\<close>.
\<close>

fun array_check :: "int \<times> int option \<Rightarrow> check \<Rightarrow> int \<times> int option" where
  "array_check (minLen, maxLen) (MinLength minimum) = (minimum, maxLen)"
| "array_check (minLen, maxLen) (MaxLength maximum) = (minLen, Some maximum)"
| "array_check (minLen, maxLen) (LengthEquals n) = (n, Some n)"
| "array_check (minLen, maxLen) c = (minLen, maxLen)"

definition array_bounds :: "check list option \<Rightarrow> int \<times> int option" where
  "array_bounds checks =
     (case checks of None \<Rightarrow> (0, None) | Some cs \<Rightarrow> foldl array_check (0, None) cs)"

fun set_check :: "int \<times> int option \<Rightarrow> check \<Rightarrow> int \<times> int option" where
  "set_check (minLen, maxLen) (MinSize minimum) = (minimum, maxLen)"
| "set_check (minLen, maxLen) (MaxSize maximum) = (minLen, Some maximum)"
| "set_check (minLen, maxLen) (SizeEquals n) = (n, Some n)"
| "set_check (minLen, maxLen) c = (minLen, maxLen)"

definition set_bounds :: "check list option \<Rightarrow> int \<times> int option" where
  "set_bounds checks =
     (case checks of None \<Rightarrow> (0, None) | Some cs \<Rightarrow> foldl set_check (0, None) cs)"

text \<open>\<open>values[0]\<close> of an empty array is \<open>undefined\<close>.\<close>

definition literal_builder :: "jsvalue list \<Rightarrow> arbitrary" where
  "literal_builder values = FcConstant (case values of [] \<Rightarrow> VUndefined | v # rest \<Rightarrow> v)"

text \<open>
  The entries of an enum, in the order of \<open>Object.keys\<close>; a value is a string or an
  integer. A number used as a property key is its decimal numeral, which is how the
  source prints an integer below \<open>1e21\<close> in magnitude; the larger ones, printed in
  exponent form, and the fractions are not covered.
\<close>

datatype enum_value = EnumStr string | EnumNum int

fun decimal :: "nat \<Rightarrow> string" where
  "decimal n =
     (if n < 10 then [char_of (48 + n)] else decimal (n div 10) @ [char_of (48 + n mod 10)])"

declare decimal.simps [simp del]

definition decimal_int :: "int \<Rightarrow> string" where
  "decimal_int i = (if i < 0 then ''-'' @ decimal (nat (- i)) else decimal (nat i))"

definition property_key :: "enum_value \<Rightarrow> string" where
  "property_key v = (case v of EnumStr s \<Rightarrow> s | EnumNum i \<Rightarrow> decimal_int i)"

definition enum_jsvalue :: "enum_value \<Rightarrow> jsvalue" where
  "enum_jsvalue v = (case v of EnumStr s \<Rightarrow> VStr s | EnumNum i \<Rightarrow> VNum (of_int i))"

definition getValidEnumValues :: "(string \<times> enum_value) list \<Rightarrow> jsvalue list" where
  "getValidEnumValues obj =
     (let validKeys =
            filter (\<lambda>key. case map_of obj key of
                             None \<Rightarrow> True
                           | Some v \<Rightarrow> (case map_of obj (property_key v) of
                                          Some (EnumNum i) \<Rightarrow> False
                                        | _ \<Rightarrow> True))
                   (map fst obj)
      in concat (map (\<lambda>key. case map_of obj key of None \<Rightarrow> [] | Some v \<Rightarrow> [enum_jsvalue v])
                     validKeys))"

definition enum_builder :: "(string \<times> enum_value) list \<Rightarrow> arbitrary" where
  "enum_builder entries = FcOneof (map FcConstant (getValidEnumValues entries))"

section \<open>Schema nodes\<close>

text \<open>
  A schema node: its identity (two nodes built alike are two nodes), the name of its
  constructor, and its definition by kind with the children and fields the builders
  read. \<open>DOther t\<close> is a node whose tag \<open>t\<close> is not a key of \<open>arbitraryBuilders\<close>, such as
  \<open>int\<close>, \<open>intersection\<close> or \<open>lazy\<close>.
\<close>

datatype schema = Schema (node_id: nat) (ctor_name: string) (node_def: schema_def)
and schema_def =
    DString "check list option"
  | DNumber "check list option"
  | DBigint "bigint_check list option"
  | DBoolean
  | DDate
  | DUndefined
  | DNull
  | DArray schema "check list option"
  | DObject "(string \<times> schema) list"
  | DUnion "schema list"
  | DTuple "schema list"
  | DRecord schema schema
  | DMap schema schema
  | DSet schema "check list option"
  | DFunction schema
  | DLiteral "jsvalue list"
  | DEnum "(string \<times> enum_value) list"
  | DPromise schema
  | DAny
  | DUnknown
  | DNever
  | DVoid
  | DOptional schema
  | DNullable schema
  | DDefault schema
  | DTransform schema
  | DDiscriminatedUnion "schema list"
  | DNan
  | DReadonly schema
  | DCatch schema
  | DPipe schema
  | DSymbol
  | DOther string

text \<open>The tag \<open>schema._zod.def.type\<close>.\<close>

fun type_of :: "schema_def \<Rightarrow> string" where
  "type_of (DString c) = ''string''"
| "type_of (DNumber c) = ''number''"
| "type_of (DBigint c) = ''bigint''"
| "type_of DBoolean = ''boolean''"
| "type_of DDate = ''date''"
| "type_of DUndefined = ''undefined''"
| "type_of DNull = ''null''"
| "type_of (DArray e c) = ''array''"
| "type_of (DObject shape) = ''object''"
| "type_of (DUnion options) = ''union''"
| "type_of (DTuple items) = ''tuple''"
| "type_of (DRecord k v) = ''record''"
| "type_of (DMap k v) = ''map''"
| "type_of (DSet v c) = ''set''"
| "type_of (DFunction out) = ''function''"
| "type_of (DLiteral vs) = ''literal''"
| "type_of (DEnum entries) = ''enum''"
| "type_of (DPromise inner) = ''promise''"
| "type_of DAny = ''any''"
| "type_of DUnknown = ''unknown''"
| "type_of DNever = ''never''"
| "type_of DVoid = ''void''"
| "type_of (DOptional inner) = ''optional''"
| "type_of (DNullable inner) = ''nullable''"
| "type_of (DDefault inner) = ''default''"
| "type_of (DTransform inp) = ''transform''"
| "type_of (DDiscriminatedUnion options) = ''discriminatedUnion''"
| "type_of DNan = ''nan''"
| "type_of (DReadonly inner) = ''readonly''"
| "type_of (DCatch inner) = ''catch''"
| "type_of (DPipe inp) = ''pipe''"
| "type_of DSymbol = ''symbol''"
| "type_of (DOther t) = t"

definition SCALAR_TYPES :: "string list" where
  "SCALAR_TYPES =
     [''string'', ''number'', ''int'', ''bigint'', ''boolean'', ''date'', ''undefined'',
      ''null'', ''literal'', ''enum'', ''any'', ''unknown'', ''void'']"

text \<open>The keys of \<open>arbitraryBuilders\<close>.\<close>

definition builder_names :: "string list" where
  "builder_names =
     [''string'', ''number'', ''bigint'', ''boolean'', ''date'', ''undefined'', ''null'',
      ''array'', ''object'', ''union'', ''tuple'', ''record'', ''map'', ''set'',
      ''function'', ''literal'', ''enum'', ''promise'', ''any'', ''unknown'', ''never'',
      ''void'', ''optional'', ''nullable'', ''default'', ''transform'',
      ''discriminatedUnion'', ''nan'', ''readonly'', ''catch'', ''pipe'', ''symbol'']"

definition isFirstPartyType :: "schema \<Rightarrow> bool" where
  "isFirstPartyType schema =
     (let typeName = type_of (node_def schema)
      in typeName \<noteq> [] \<and> typeName \<in> set builder_names)"

section \<open>The override registry and the traversal\<close>

text \<open>
  An override is a generator or a factory. A factory is a closure of the caller; it is
  named by a number, and \<open>call f overrides\<close> is the generator it returns when it is
  called with the instance whose table is \<open>overrides\<close>. The table is a JavaScript
  \<open>Map\<close> keyed by the identity of the schema node, in insertion order.
\<close>

datatype override_arbitrary = Arbitrary arbitrary | FactoryFn nat

type_synonym overrides = "(nat \<times> override_arbitrary) list"

type_synonym invoke = "nat \<Rightarrow> overrides \<Rightarrow> arbitrary"

definition findOverride :: "invoke \<Rightarrow> overrides \<Rightarrow> schema \<Rightarrow> arbitrary option" where
  "findOverride call ovs schema =
     (case map_of ovs (node_id schema) of
        Some (FactoryFn f) \<Rightarrow> Some (call f ovs)
      | Some (Arbitrary arb) \<Rightarrow> Some arb
      | None \<Rightarrow> None)"

definition strip_zod :: "string \<Rightarrow> string" where
  "strip_zod constructorName =
     (if take 3 constructorName = ''Zod'' then drop 3 constructorName else constructorName)"

text \<open>A result mapped when it is a generator; an error passes through.\<close>

definition then_arb :: "error + 'a \<Rightarrow> ('a \<Rightarrow> 'b) \<Rightarrow> error + 'b" where
  "then_arb r f = (case r of Inl e \<Rightarrow> Inl e | Inr a \<Rightarrow> Inr (f a))"

text \<open>The results of the calls made for a list of children: the first error is thrown.\<close>

fun sequence :: "(error + 'a) list \<Rightarrow> error + 'a list" where
  "sequence [] = Inr []"
| "sequence (r # rs) =
     (case r of
        Inl e \<Rightarrow> Inl e
      | Inr a \<Rightarrow> (case sequence rs of Inl e \<Rightarrow> Inl e | Inr as \<Rightarrow> Inr (a # as)))"

definition objectFromEntries :: "(string \<times> 'a) list \<Rightarrow> (string \<times> 'a) list" where
  "objectFromEntries entries = foldl (\<lambda>obj kv. AList.update (fst kv) (snd kv) obj) [] entries"

lemma size_snd_entry:
  "entry \<in> set shape \<Longrightarrow> size (snd entry) < size_list (\<lambda>x. Suc (size (snd x))) shape"
  by (induction shape) auto

lemma size_nth_item:
  "i < length items \<Longrightarrow> size (items ! i) \<le> size_list size (items :: schema list)"
  using size_list_estimation' [of "items ! i" items "size (items ! i)" size] by simp

text \<open>
  \<open>inputWithPath\<close> and the table \<open>arbitraryBuilders\<close>; \<open>builder\<close> takes the identity and
  the constructor name of the node beside its definition. The options of a discriminated
  union are the array that the schema library hands over.
\<close>

function (sequential) inputWithPath :: "invoke \<Rightarrow> overrides \<Rightarrow> schema \<Rightarrow> string \<Rightarrow> error + arbitrary"
and builder :: "invoke \<Rightarrow> overrides \<Rightarrow> nat \<Rightarrow> string \<Rightarrow> schema_def \<Rightarrow> string \<Rightarrow> error + arbitrary"
where
  "inputWithPath call ovs (Schema sid ctor d) path =
     (case findOverride call ovs (Schema sid ctor d) of
        Some override \<Rightarrow> Inr override
      | None \<Rightarrow>
          if isFirstPartyType (Schema sid ctor d) then builder call ovs sid ctor d path
          else Inl (unsupported (strip_zod ctor) path))"
| "builder call ovs sid ctor (DString checks) path = Inr (string_builder checks sid path)"
| "builder call ovs sid ctor (DNumber checks) path = number_builder checks sid path"
| "builder call ovs sid ctor (DBigint checks) path = Inr (bigint_builder checks)"
| "builder call ovs sid ctor DBoolean path = Inr FcBoolean"
| "builder call ovs sid ctor DDate path = Inr FcDate"
| "builder call ovs sid ctor DUndefined path = Inr (FcConstant VUndefined)"
| "builder call ovs sid ctor DNull path = Inr (FcConstant VNull)"
| "builder call ovs sid ctor (DArray element checks) path =
     then_arb (inputWithPath call ovs element (path @ ''[*]''))
       (\<lambda>arb. FcArrayBetween arb (fst (array_bounds checks)) (snd (array_bounds checks)))"
| "builder call ovs sid ctor (DObject shape) path =
     then_arb
       (sequence (map (\<lambda>entry. then_arb (inputWithPath call ovs (snd entry) (path @ ''.'' @ fst entry))
                                 (\<lambda>arb. (fst entry, arb))) shape))
       (\<lambda>propertyArbitraries. FcRecord (objectFromEntries propertyArbitraries))"
| "builder call ovs sid ctor (DUnion options) path =
     then_arb (sequence (map (\<lambda>option. inputWithPath call ovs option path) options)) FcOneof"
| "builder call ovs sid ctor (DTuple items) path =
     then_arb
       (sequence (map (\<lambda>indexed. inputWithPath call ovs (snd indexed)
                                  (path @ ''['' @ decimal (fst indexed) @ '']''))
                      (enumerate 0 items)))
       FcTuple"
| "builder call ovs sid ctor (DRecord keyType valueType) path =
     (case inputWithPath call ovs keyType path of
        Inl e \<Rightarrow> Inl e
      | Inr keyArb \<Rightarrow>
          then_arb (inputWithPath call ovs valueType (path @ ''[*]'')) (FcDictionary keyArb))"
| "builder call ovs sid ctor (DMap keyType valueType) path =
     (case inputWithPath call ovs keyType (path @ ''.(key)'') of
        Inl e \<Rightarrow> Inl e
      | Inr key \<Rightarrow>
          then_arb (inputWithPath call ovs valueType (path @ ''.(value)''))
            (\<lambda>val. FcMap (FcArray (FcTuple [key, val])) NewMap))"
| "builder call ovs sid ctor (DSet valueType checks) path =
     then_arb (inputWithPath call ovs valueType (path @ ''.(value)''))
       (\<lambda>arb. FcMap (FcUniqueArray arb (fst (set_bounds checks)) (snd (set_bounds checks))) NewSet)"
| "builder call ovs sid ctor (DFunction output) path =
     then_arb (inputWithPath call ovs output (path @ ''.(return type)''))
       (\<lambda>arb. FcMap arb ConstantFunction)"
| "builder call ovs sid ctor (DLiteral values) path = Inr (literal_builder values)"
| "builder call ovs sid ctor (DEnum entries) path = Inr (enum_builder entries)"
| "builder call ovs sid ctor (DPromise innerType) path =
     then_arb (inputWithPath call ovs innerType (path @ ''.(resolved type)''))
       (\<lambda>arb. FcMap arb PromiseResolve)"
| "builder call ovs sid ctor DAny path = Inr FcAnything"
| "builder call ovs sid ctor DUnknown path = Inr FcAnything"
| "builder call ovs sid ctor DNever path = Inl (unsupported ''Never'' path)"
| "builder call ovs sid ctor DVoid path = Inr (FcConstant VUndefined)"
| "builder call ovs sid ctor (DOptional innerType) path =
     then_arb (inputWithPath call ovs innerType path) (\<lambda>arb. FcOption arb VUndefined 2)"
| "builder call ovs sid ctor (DNullable innerType) path =
     then_arb (inputWithPath call ovs innerType path) (\<lambda>arb. FcOption arb VNull 2)"
| "builder call ovs sid ctor (DDefault innerType) path =
     then_arb (inputWithPath call ovs innerType path)
       (\<lambda>arb. FcOneof [FcConstant VUndefined, arb])"
| "builder call ovs sid ctor (DTransform inp) path =
     then_arb (inputWithPath call ovs inp path) (\<lambda>arb. filterArbitraryBySchema arb sid path)"
| "builder call ovs sid ctor (DDiscriminatedUnion options) path =
     then_arb (sequence (map (\<lambda>option. inputWithPath call ovs option path) options)) FcOneof"
| "builder call ovs sid ctor DNan path = Inr (FcConstant VNaN)"
| "builder call ovs sid ctor (DReadonly innerType) path =
     then_arb (inputWithPath call ovs innerType path) (\<lambda>arb. FcMap arb ObjectFreeze)"
| "builder call ovs sid ctor (DCatch innerType) path =
     then_arb (inputWithPath call ovs innerType path) (\<lambda>arb. FcOneof [arb, FcAnything])"
| "builder call ovs sid ctor (DPipe inp) path =
     then_arb (inputWithPath call ovs inp path)
       (\<lambda>arb. FcFilter arb
                (ThrowIfSuccessRateBelow MIN_SUCCESS_RATE (SafeParseSuccess sid) path))"
| "builder call ovs sid ctor DSymbol path = Inr (FcMap FcString ToSymbol)"
| "builder call ovs sid ctor (DOther t) path = Inl (unsupported (strip_zod ctor) path)"
  by pat_completeness auto

termination inputWithPath
  by (relation "measure (\<lambda>x. case x of
          Inl (call, ovs, schema, path) \<Rightarrow> size schema
        | Inr (call, ovs, sid, ctor, d, path) \<Rightarrow> size d)")
     (auto simp: less_Suc_eq_le size_list_estimation' in_set_enumerate_eq size_nth_item
           dest: size_snd_entry)

definition inputOf :: "invoke \<Rightarrow> overrides \<Rightarrow> schema \<Rightarrow> error + arbitrary" where
  "inputOf call ovs schema = inputWithPath call ovs schema []"

definition outputOf :: "invoke \<Rightarrow> overrides \<Rightarrow> schema \<Rightarrow> error + arbitrary" where
  "outputOf call ovs schema =
     (case inputOf call ovs schema of
        Inl e \<Rightarrow> Inl e
      | Inr inputArbitrary \<Rightarrow>
          if isFirstPartyType schema \<and> type_of (node_def schema) \<in> set SCALAR_TYPES
          then Inr inputArbitrary
          else Inr (FcMap
                      (FcFilter (FcMap inputArbitrary (SafeParse (node_id schema)))
                         (ThrowIfSuccessRateBelow MIN_SUCCESS_RATE IsUnionMemberSuccess []))
                      ParsedData))"

section \<open>Instances of the compiler\<close>

text \<open>
  An instance of \<open>_ZodFastCheck\<close> is an object holding its own \<open>overrides\<close> map. The heap
  gives every reference its table; references from \<open>next_ref\<close> on are not yet allocated.
  \<open>Map.prototype.set\<close> replaces the value of a key the table has, and appends otherwise.
\<close>

record heap =
  next_ref :: nat
  tables :: "nat \<Rightarrow> overrides"

definition new_ZodFastCheck :: "heap \<Rightarrow> nat \<times> heap" where
  "new_ZodFastCheck h =
     (next_ref h, h\<lparr>next_ref := Suc (next_ref h), tables := (tables h)(next_ref h := [])\<rparr>)"

definition overrides_set :: "heap \<Rightarrow> nat \<Rightarrow> nat \<Rightarrow> override_arbitrary \<Rightarrow> heap" where
  "overrides_set h r key arb = h\<lparr>tables := (tables h)(r := AList.update key arb (tables h r))\<rparr>"

definition clone :: "heap \<Rightarrow> nat \<Rightarrow> nat \<times> heap" where
  "clone h this =
     (let (cloned, h1) = new_ZodFastCheck h
      in (cloned,
          foldl (\<lambda>hp entry. overrides_set hp cloned (fst entry) (snd entry)) h1 (tables h1 this)))"

definition override :: "heap \<Rightarrow> nat \<Rightarrow> schema \<Rightarrow> override_arbitrary \<Rightarrow> nat \<times> heap" where
  "override h this schema arb =
     (let (withOverride, h1) = clone h this
      in (withOverride, overrides_set h1 withOverride (node_id schema) arb))"

text \<open>
  A heap is well formed when the keys of every table are distinct, as the keys of a
  \<open>Map\<close> are, and the tables of the references not yet allocated are empty.
\<close>

definition wf_heap :: "heap \<Rightarrow> bool" where
  "wf_heap h \<longleftrightarrow> (\<forall>r. distinct (map fst (tables h r))) \<and> (\<forall>r. next_ref h \<le> r \<longrightarrow> tables h r = [])"

section \<open>Notions used to state the properties\<close>

text \<open>
  The values of the minimum-length and of the maximum-length checks of a checks list, in
  declaration order, and the lists that hold no other check.
\<close>

fun min_lengths :: "check list \<Rightarrow> int list" where
  "min_lengths [] = []"
| "min_lengths (MinLength m # cs) = m # min_lengths cs"
| "min_lengths (c # cs) = min_lengths cs"

fun max_lengths :: "check list \<Rightarrow> int list" where
  "max_lengths [] = []"
| "max_lengths (MaxLength m # cs) = m # max_lengths cs"
| "max_lengths (c # cs) = max_lengths cs"

fun only_length_bounds :: "check list \<Rightarrow> bool" where
  "only_length_bounds [] = True"
| "only_length_bounds (MinLength m # cs) = only_length_bounds cs"
| "only_length_bounds (MaxLength m # cs) = only_length_bounds cs"
| "only_length_bounds (c # cs) = False"






text \<open>The refinement \<open>x => x % 3 === 0\<close>.\<close>

definition divisible_by_3 :: "rat \<Rightarrow> jsvalue" where
  "divisible_by_3 x = VBool (x \<in> \<int> \<and> \<lfloor>x\<rfloor> mod 3 = 0)"

text \<open>Factories that ignore the instance: factory \<open>f\<close> returns the generator \<open>f\<close> of the caller.\<close>

definition constant_factories :: invoke where
  "constant_factories f ovs = UserArbitrary f"

text \<open>A heap with one instance, which overrides the node \<open>7\<close>.\<close>

definition example_heap :: heap where
  "example_heap = \<lparr>next_ref = 1, tables = (\<lambda>r. [])(0 := [(7, Arbitrary FcUuid)])\<rparr>"

section \<open>Properties of the success-rate guard\<close>

lemma guard_calls_state:
  "snd (guard_calls rate pred path st vs) =
     \<lparr>successful = successful st + length (filter pred vs), total = total st + length vs\<rparr>"
proof (induction vs arbitrary: st)
  case Nil
  show ?case by simp
next
  case (Cons v vs)
  have step: "snd (throwIfSuccessRateBelow rate pred path st v) =
      \<lparr>successful = successful st + (if pred v then 1 else 0), total = total st + 1\<rparr>"
    by (simp add: throwIfSuccessRateBelow_def Let_def)
  show ?case
    using Cons.IH [of "snd (throwIfSuccessRateBelow rate pred path st v)"]
    by (simp add: step case_prod_beta Let_def)
qed

text \<open>
  Claim C1. A guard instance starts with both counters at zero. Let \<open>vs\<close> be the values it
  has been called on so far and \<open>v\<close> the value of the present call, so that the present
  call is evaluation number \<open>length vs + 1\<close>. While that number does not exceed the
  warm-up threshold \<open>MIN_RUNS = 1000\<close>, the call returns the raw result of the predicate.
  Past the threshold, when the ratio of accepted values to evaluations (the present one
  included) is below \<open>1/100\<close>, the call raises the generation error whose message names
  the path (\<open>.\<close> for the empty path) and says that an override must be provided.
\<close>

theorem guard_warmup_then_floor:
  "(length vs + 1 \<le> MIN_RUNS \<longrightarrow>
      fst (throwIfSuccessRateBelow MIN_SUCCESS_RATE pred path
             (snd (guard_calls MIN_SUCCESS_RATE pred path guard_init vs)) v) = Inr (pred v)) \<and>
   (MIN_RUNS < length vs + 1 \<and>
      (of_nat (length (filter pred (vs @ [v]))) :: rat) / of_nat (length vs + 1) < 1 / 100 \<longrightarrow>
      fst (throwIfSuccessRateBelow MIN_SUCCESS_RATE pred path
             (snd (guard_calls MIN_SUCCESS_RATE pred path guard_init vs)) v) =
        Inl (ZodFastCheckGenerationError
          [Lit ''Unable to generate valid values for Zod schema. '',
           Lit ''An override is must be provided for the schema at path '', Lit apostrophe,
           Lit (if path = [] then ''.'' else path), Lit apostrophe, Lit ''.'']))"
  by (simp add: guard_calls_state throwIfSuccessRateBelow_def guard_init_def Let_def
        MIN_SUCCESS_RATE_def override_message_def path_or_dot_def)

text \<open>
  A predicate that rejects everything: evaluation 1000 still returns its result,
  evaluation 1001 raises.
\<close>

theorem guard_warmup_then_floor_witness:
  "fst (throwIfSuccessRateBelow MIN_SUCCESS_RATE (\<lambda>x::nat. False) ''.age''
          (snd (guard_calls MIN_SUCCESS_RATE (\<lambda>x::nat. False) ''.age'' guard_init (replicate 999 0))) 0)
     = Inr False \<and>
   fst (throwIfSuccessRateBelow MIN_SUCCESS_RATE (\<lambda>x::nat. False) ''.age''
          (snd (guard_calls MIN_SUCCESS_RATE (\<lambda>x::nat. False) ''.age'' guard_init (replicate 1000 0))) 0)
     = Inl (ZodFastCheckGenerationError
          [Lit ''Unable to generate valid values for Zod schema. '',
           Lit ''An override is must be provided for the schema at path '', Lit apostrophe,
           Lit ''.age'', Lit apostrophe, Lit ''.''])"
  using guard_warmup_then_floor [of "replicate 999 (0::nat)" "\<lambda>x. False" "''.age''" 0]
    guard_warmup_then_floor [of "replicate 1000 (0::nat)" "\<lambda>x. False" "''.age''" 0]
  by (simp add: MIN_RUNS_def)

section \<open>Properties of the double arithmetic\<close>

text \<open>The binade of a non-zero rational: the power of two at or below its magnitude.\<close>

lemma powi_nat_bitlen: "0 \<le> k \<Longrightarrow> (2 :: rat) powi k = 2 ^ nat k"
  by (metis int_nat_eq power_int_of_nat)

lemma of_int_bitlen_bounds:
  assumes "0 < p"
  shows "(2 :: rat) powi (bitlen p - 1) \<le> of_int p" and "(of_int p :: rat) < 2 powi bitlen p"
proof -
  have b1: "1 \<le> bitlen p"
    using assms bitlen_eq_zero_iff [of p] bitlen_nonneg [of p] by linarith
  have lo: "(2 :: int) ^ nat (bitlen p - 1) \<le> p" and hi: "p < 2 ^ nat (bitlen p)"
    using bitlen_bounds [OF assms] by simp_all
  have "(of_int ((2 :: int) ^ nat (bitlen p - 1)) :: rat) \<le> of_int p"
    using lo by (simp only: of_int_le_iff)
  then show "(2 :: rat) powi (bitlen p - 1) \<le> of_int p"
    using b1 by (simp add: powi_nat_bitlen)
  have "(of_int p :: rat) < of_int ((2 :: int) ^ nat (bitlen p))"
    using hi by (simp only: of_int_less_iff)
  then show "(of_int p :: rat) < 2 powi bitlen p"
    using b1 by (simp add: powi_nat_bitlen)
qed

lemma binade_bounds:
  assumes "x \<noteq> 0"
  shows "2 powi binade x \<le> \<bar>x\<bar> \<and> \<bar>x\<bar> < 2 powi (binade x + 1)"
proof -
  obtain p q where pq: "quotient_of \<bar>x\<bar> = (p, q)"
    by (cases "quotient_of \<bar>x\<bar>") auto
  have q: "0 < q" using pq by (rule quotient_of_denom_pos)
  have x: "\<bar>x\<bar> = of_int p / of_int q" using pq by (rule quotient_of_div)
  have "0 < \<bar>x\<bar>" using assms by simp
  then have "0 < (of_int p :: rat) / of_int q" by (simp only: x)
  then have p: "0 < p" using q by (simp add: zero_less_divide_iff)
  define k where "k = bitlen p - bitlen q"
  have upper: "\<bar>x\<bar> < 2 powi (k + 1)"
  proof -
    have "of_int p / of_int q < (2 :: rat) powi bitlen p / 2 powi (bitlen q - 1)"
      using of_int_bitlen_bounds(2) [OF p] of_int_bitlen_bounds(1) [OF q] q p
      by (intro frac_less) simp_all
    also have "\<dots> = 2 powi (bitlen p - (bitlen q - 1))"
      by (subst power_int_diff) simp_all
    also have "bitlen p - (bitlen q - 1) = k + 1"
      by (simp add: k_def)
    finally show ?thesis by (simp add: x)
  qed
  have lower: "2 powi (k - 1) \<le> \<bar>x\<bar>"
  proof -
    have "(2 :: rat) powi (bitlen p - 1) / 2 powi bitlen q \<le> of_int p / of_int q"
      using of_int_bitlen_bounds(1) [OF p] of_int_bitlen_bounds(2) [OF q] q p
      by (intro frac_le) simp_all
    moreover have "(2 :: rat) powi (bitlen p - 1) / 2 powi bitlen q = 2 powi (bitlen p - 1 - bitlen q)"
      by (subst power_int_diff) simp_all
    moreover have "bitlen p - 1 - bitlen q = k - 1"
      by (simp add: k_def)
    ultimately show ?thesis by (simp add: x)
  qed
  have b: "binade x = (if 2 powi k \<le> \<bar>x\<bar> then k else k - 1)"
    by (simp add: binade_def pq k_def Let_def)
  show ?thesis
  proof (cases "2 powi k \<le> \<bar>x\<bar>")
    case True
    then show ?thesis using upper by (simp add: b)
  next
    case False
    then show ?thesis using lower by (simp add: b)
  qed
qed

text \<open>Integers up to \<open>2^53\<close> in magnitude are doubles: rounding leaves them as they are.\<close>

lemma round_half_even_of_int: "round_half_even (of_int m) = m"
  by (simp add: round_half_even_def)

lemma dbl_of_int:
  assumes "\<bar>n\<bar> \<le> 2 ^ 53"
  shows "dbl (of_int n) = of_int n"
proof (cases "n = 0")
  case True
  then show ?thesis by (simp add: dbl_def)
next
  case False
  define x :: rat where "x = of_int n"
  define e where "e = binade x"
  have x0: "x \<noteq> 0" using False by (simp add: x_def)
  have bounds: "2 powi e \<le> \<bar>x\<bar>" "\<bar>x\<bar> < 2 powi (e + 1)"
    using binade_bounds [OF x0] by (simp_all add: e_def)
  have ax: "\<bar>x\<bar> = of_int \<bar>n\<bar>" by (simp add: x_def)
  have x1: "1 \<le> \<bar>x\<bar>" using False by (simp add: ax)
  have xle: "\<bar>x\<bar> \<le> 2 powi 53"
    using assms by (simp add: ax)
  have e_lo: "0 \<le> e"
  proof (rule ccontr)
    assume "\<not> 0 \<le> e"
    then have "e + 1 \<le> 0" by simp
    then have "(2 :: rat) powi (e + 1) \<le> 2 powi 0"
      by (intro power_int_increasing) simp_all
    then show False using bounds(2) x1 by simp
  qed
  have e_hi: "e \<le> 53"
  proof (rule ccontr)
    assume "\<not> e \<le> 53"
    then have "54 \<le> e" by simp
    then have "(2 :: rat) powi 54 \<le> 2 powi e"
      by (intro power_int_increasing) simp_all
    then show False using bounds(1) xle by simp
  qed
  have integral: "\<exists>m. x / 2 powi (e - 52) = of_int m"
  proof (cases "e \<le> 52")
    case True
    have "x / 2 powi (e - 52) = x * 2 powi (52 - e)"
      by (simp add: power_int_diff field_simps)
    also have "\<dots> = of_int (n * 2 ^ nat (52 - e))"
      using True by (simp add: x_def powi_nat_bitlen)
    finally show ?thesis by blast
  next
    case False
    then have e53: "e = 53" using e_hi by simp
    have "\<bar>x\<bar> = 2 ^ 53" using bounds(1) xle by (simp add: e53)
    then have "\<bar>n\<bar> = 2 ^ 53"
      using ax by (metis of_int_eq_iff of_int_numeral of_int_power)
    then have "n = 2 ^ 53 \<or> n = - (2 ^ 53)" by linarith
    then have "x / 2 powi (e - 52) = of_int (n div 2)"
      by (auto simp: x_def e53)
    then show ?thesis by blast
  qed
  then obtain m where m: "x / 2 powi (e - 52) = of_int m" by blast
  have undo: "of_int m * 2 powi (e - 52) = x"
    using m by (simp add: field_simps)
  have "dbl x = of_int (round_half_even (x / 2 powi (e - 52))) * 2 powi (e - 52)"
    using x0 e_lo by (simp add: dbl_def Let_def e_def [symmetric] max_def)
  then show ?thesis
    by (simp add: m round_half_even_of_int undo) (simp add: x_def)
qed





section \<open>Properties of the traversal\<close>

lemma inputWithPath_no_override:
  "map_of ovs sid = None \<Longrightarrow> type_of d \<in> set builder_names \<Longrightarrow>
   inputWithPath call ovs (Schema sid ctor d) path = builder call ovs sid ctor d path"
  by (auto simp: findOverride_def isFirstPartyType_def Let_def builder_names_def)

text \<open>
  Claim C5. When the table has an entry for the identity of a node, \<open>inputWithPath\<close>
  returns the resolved entry: the stored generator, or what the stored factory returns
  when it is called with the instance. The result is the same for every constructor
  name, kind, checks list, children and path the node may have: none of them is read.
\<close>

theorem override_precedes_dispatch:
  "map_of ovs (node_id schema) = Some entry \<longrightarrow>
     inputWithPath call ovs schema path =
       Inr (case entry of Arbitrary arb \<Rightarrow> arb | FactoryFn f \<Rightarrow> call f ovs) \<and>
     (\<forall>ctor d p. inputWithPath call ovs (Schema (node_id schema) ctor d) p =
        inputWithPath call ovs schema path)"
  by (cases schema) (auto simp: findOverride_def split: override_arbitrary.splits)

text \<open>
  An overridden node of kind \<open>never\<close> and an overridden number node with inverted bounds
  compile to their overrides; without the override the first one is unsupported.
\<close>

theorem override_precedes_dispatch_witness:
  "inputWithPath constant_factories [(3, Arbitrary FcUuid)] (Schema 3 ''ZodNever'' DNever) ''.id''
     = Inr FcUuid \<and>
   inputWithPath constant_factories [(3, FactoryFn 8)]
       (Schema 3 ''ZodNumber'' (DNumber (Some [GreaterThan 5 True, LessThan 4 True, MultipleOf 1]))) ''.id''
     = Inr (UserArbitrary 8) \<and>
   inputWithPath constant_factories [] (Schema 3 ''ZodNever'' DNever) ''.id''
     = Inl (unsupported ''Never'' ''.id'')"
  using override_precedes_dispatch [of "[(3, Arbitrary FcUuid)]" "Schema 3 ''ZodNever'' DNever"
      "Arbitrary FcUuid" constant_factories "''.id''"]
    override_precedes_dispatch [of "[(3, FactoryFn 8)]"
      "Schema 3 ''ZodNumber'' (DNumber (Some [GreaterThan 5 True, LessThan 4 True, MultipleOf 1]))"
      "FactoryFn 8" constant_factories "''.id''"]
  by (simp add: constant_factories_def findOverride_def isFirstPartyType_def builder_names_def)

text \<open>
  A node of kind \<open>int\<close> written by hand and given an override: \<open>inputOf\<close> returns the
  override and \<open>outputOf\<close> wraps it in the parse, filter and projection steps. The name
  \<open>int\<close> is in \<open>SCALAR_TYPES\<close> and is no key of \<open>arbitraryBuilders\<close>.
\<close>

lemma hand_built_int_node_differs:
  "type_of (node_def (Schema 1 ''ZodInt'' (DOther ''int''))) \<in> set SCALAR_TYPES \<and>
   inputOf constant_factories [(1, Arbitrary FcBoolean)] (Schema 1 ''ZodInt'' (DOther ''int''))
     = Inr FcBoolean \<and>
   outputOf constant_factories [(1, Arbitrary FcBoolean)] (Schema 1 ''ZodInt'' (DOther ''int''))
     = Inr (FcMap (FcFilter (FcMap FcBoolean (SafeParse 1))
                     (ThrowIfSuccessRateBelow MIN_SUCCESS_RATE IsUnionMemberSuccess []))
              ParsedData)"
  by (simp add: SCALAR_TYPES_def inputOf_def outputOf_def findOverride_def isFirstPartyType_def
        builder_names_def)

lemma scalar_has_builder:
  "type_of d \<in> set SCALAR_TYPES \<Longrightarrow> type_of d \<noteq> ''int'' \<Longrightarrow> type_of d \<in> set builder_names"
  by (auto simp: SCALAR_TYPES_def builder_names_def)

text \<open>
  Claim C7. For every schema whose kind is in the scalar set, \<open>outputOf\<close> returns exactly
  what \<open>inputOf\<close> returns, the generator or the error, overridden or not, with no parse,
  filter or projection step on top. The kind \<open>int\<close> is in the set and has no builder;
  the schema library builds no node of that kind, \<open>z.int()\<close> and \<open>z.number().int()\<close>
  build nodes of kind \<open>number\<close> that carry the \<open>safeint\<close> format check. A node of kind
  \<open>int\<close> that is not overridden is covered: both functions raise the unsupported-schema
  error. The one shape left out is a node of kind \<open>int\<close> written by hand and overridden.
\<close>

theorem outputOf_scalar_is_inputOf:
  "type_of (node_def schema) \<in> set SCALAR_TYPES \<and>
   (type_of (node_def schema) = ''int'' \<longrightarrow> map_of ovs (node_id schema) = None) \<longrightarrow>
     outputOf call ovs schema = inputOf call ovs schema"
proof (intro impI)
  assume h: "type_of (node_def schema) \<in> set SCALAR_TYPES \<and>
    (type_of (node_def schema) = ''int'' \<longrightarrow> map_of ovs (node_id schema) = None)"
  show "outputOf call ovs schema = inputOf call ovs schema"
  proof (cases "type_of (node_def schema) = ''int''")
    case False
    then have "type_of (node_def schema) \<in> set builder_names"
      using h by (simp add: scalar_has_builder)
    moreover from this have "type_of (node_def schema) \<noteq> []"
      by (auto simp: builder_names_def)
    ultimately have "isFirstPartyType schema"
      by (simp add: isFirstPartyType_def)
    then show ?thesis
      using h by (simp add: outputOf_def split: sum.splits)
  next
    case True
    then have "inputOf call ovs schema = Inl (unsupported (strip_zod (ctor_name schema)) [])"
      using h
      by (cases schema)
         (simp add: inputOf_def findOverride_def isFirstPartyType_def builder_names_def)
    then show ?thesis
      by (simp add: outputOf_def)
  qed
qed

text \<open>
  A string node, and a number node with the integer format that is overridden.
\<close>

theorem outputOf_scalar_is_inputOf_witness:
  "outputOf constant_factories [] (Schema 2 ''ZodString'' (DString (Some [MinLength 5, MaxLength 10])))
     = Inr (FcStringBetween 5 10) \<and>
   inputOf constant_factories [] (Schema 2 ''ZodString'' (DString (Some [MinLength 5, MaxLength 10])))
     = Inr (FcStringBetween 5 10) \<and>
   outputOf constant_factories [(2, Arbitrary FcUuid)]
      (Schema 2 ''ZodNumber'' (DNumber (Some [NumberFormat ''safeint''])))
     = Inr FcUuid"
  using outputOf_scalar_is_inputOf [of "Schema 2 ''ZodString'' (DString (Some [MinLength 5, MaxLength 10]))"
      "[]" constant_factories]
    outputOf_scalar_is_inputOf [of "Schema 2 ''ZodNumber'' (DNumber (Some [NumberFormat ''safeint'']))"
      "[(2, Arbitrary FcUuid)]" constant_factories]
  by (simp add: SCALAR_TYPES_def inputOf_def findOverride_def
        isFirstPartyType_def builder_names_def string_builder_def string_init_def
        hasEmailFormat_def)

text \<open>
  Claim C10. A literal schema with more than one value compiles to the constant
  generator of the first value of its list: that value is generated, and no declared
  value different from it ever is.
\<close>

theorem literal_first_value_only:
  "1 < length values \<longrightarrow>
     literal_builder values = FcConstant (values ! 0) \<and>
     (map_of ovs sid = None \<longrightarrow>
        inputOf call ovs (Schema sid ctor (DLiteral values)) = Inr (FcConstant (values ! 0))) \<and>
     (\<forall>v. may_generate (literal_builder values) v \<longleftrightarrow> v = values ! 0) \<and>
     (\<forall>w \<in> set values. w \<noteq> values ! 0 \<longrightarrow> \<not> may_generate (literal_builder values) w)"
proof (cases "values")
  case Nil
  then show ?thesis by simp
next
  case (Cons v rest)
  have lit: "literal_builder values = FcConstant (values ! 0)"
    by (simp add: Cons literal_builder_def)
  have top: "map_of ovs sid = None \<Longrightarrow>
      inputOf call ovs (Schema sid ctor (DLiteral values)) = Inr (literal_builder values)"
    by (simp add: inputOf_def inputWithPath_no_override builder_names_def
          del: inputWithPath.simps)
  show ?thesis
    using top by (simp add: lit)
qed

theorem literal_first_value_only_witness:
  "inputOf constant_factories [] (Schema 4 ''ZodLiteral'' (DLiteral [VStr ''a'', VStr ''b'']))
     = Inr (FcConstant (VStr ''a'')) \<and>
   may_generate (literal_builder [VStr ''a'', VStr ''b'']) (VStr ''a'') \<and>
   \<not> may_generate (literal_builder [VStr ''a'', VStr ''b'']) (VStr ''b'')"
  using literal_first_value_only [of "[VStr ''a'', VStr ''b'']" "[]" 4 constant_factories "''ZodLiteral''"]
  by simp

section \<open>Properties of the string interpreter\<close>

lemma Max_insert_max:
  "finite S \<Longrightarrow> Max (insert (max a b) S) = Max (insert a (insert b (S :: int set)))"
  by (cases "S = {}") (auto simp: max.assoc)

lemma Min_insert_min:
  "finite S \<Longrightarrow> Min (insert (min a b) S) = Min (insert a (insert b (S :: int set)))"
  by (cases "S = {}") (auto simp: min.assoc)

text \<open>
  On minimum-length and maximum-length checks the loop tightens: it ends with the
  largest minimum and the smallest maximum it has read.
\<close>

lemma string_checks_length_bounds:
  "only_length_bounds cs \<Longrightarrow>
   string_checks st cs =
     Inr (st\<lparr>minLength := Max (set (minLength st # min_lengths cs)),
             maxLength := (case maxLength st of
                             None \<Rightarrow> if max_lengths cs = [] then None
                                      else Some (Min (set (max_lengths cs)))
                           | Some m \<Rightarrow> Some (Min (set (m # max_lengths cs))))\<rparr>)"
proof (induction cs arbitrary: st)
  case Nil
  show ?case by (simp split: option.split)
next
  case (Cons c cs)
  from Cons.prems have rest: "only_length_bounds cs"
    by (cases c) simp_all
  from Cons.prems consider m where "c = MinLength m" | m where "c = MaxLength m"
    by (cases c) simp_all
  then show ?case
  proof cases
    case 1
    show ?thesis
      unfolding 1
      using Cons.IH [OF rest, of "st\<lparr>minLength := max (minLength st) m\<rparr>"]
      by (cases "maxLength st") (simp_all add: Max_insert_max)
  next
    case 2
    show ?thesis
      using Cons.IH [OF rest,
          of "st\<lparr>maxLength := Some (case maxLength st of None \<Rightarrow> m | Some x \<Rightarrow> min x m)\<rparr>"]
      unfolding 2
      by (cases "maxLength st")
         (simp_all add: Min_insert_min)
  qed
qed

lemma no_email: "only_length_bounds cs \<Longrightarrow> \<not> hasEmailFormat cs"
  by (induction cs rule: only_length_bounds.induct) (auto simp: hasEmailFormat_def)

lemma string_builder_length_bounds:
  assumes "only_length_bounds cs"
  shows "string_builder (Some cs) sid path =
     FcStringBetween (Max (set (0 # min_lengths cs)))
       (if max_lengths cs = [] then 2 * Max (set (0 # min_lengths cs)) + 10
        else Min (set (max_lengths cs)))"
  using assms
  by (simp add: string_builder_def string_checks_length_bounds no_email string_init_def Let_def)

text \<open>
  Claim C9. Let the checks of a string schema be minimum-length and maximum-length checks
  only, let \<open>a\<close> be the largest of \<open>0\<close> and the minimum lengths, and \<open>b\<close> the smallest
  maximum length, or \<open>2 * a + 10\<close> when there is no maximum-length check. The schema
  compiles to \<open>fc.string({minLength: a, maxLength: b})\<close>, with no map or filter on top, and
  every value this generator yields is a string whose length lies in \<open>[a, b]\<close>. A string
  schema whose checks list is absent compiles to the unconstrained \<open>fc.string()\<close>.
\<close>

theorem string_length_bounds:
  "(only_length_bounds cs \<longrightarrow>
     (let a = Max (set (0 # min_lengths cs));
          b = (if max_lengths cs = [] then 2 * a + 10 else Min (set (max_lengths cs)))
      in string_builder (Some cs) sid path = FcStringBetween a b \<and>
         (map_of ovs sid = None \<longrightarrow>
            inputOf call ovs (Schema sid ctor (DString (Some cs))) = Inr (FcStringBetween a b)) \<and>
         (\<forall>v. may_generate (string_builder (Some cs) sid path) v \<longrightarrow>
            (\<exists>s. v = VStr s \<and> a \<le> int (length s) \<and> int (length s) \<le> b)))) \<and>
   string_builder None sid path = FcString \<and>
   (map_of ovs sid = None \<longrightarrow>
      inputOf call ovs (Schema sid ctor (DString None)) = Inr FcString)"
proof -
  define a where "a = Max (set (0 # min_lengths cs))"
  define b where "b = (if max_lengths cs = [] then 2 * a + 10 else Min (set (max_lengths cs)))"
  have absent: "string_builder None sid p = FcString" for p
    by (simp add: string_builder_def)
  have top: "map_of ovs sid = None \<Longrightarrow>
      inputOf call ovs (Schema sid ctor (DString checks)) = Inr (string_builder checks sid [])"
    for checks
    by (simp add: inputOf_def inputWithPath_no_override builder_names_def
          del: inputWithPath.simps)
  have built: "string_builder (Some cs) sid p = FcStringBetween a b"
    if "only_length_bounds cs" for p
    unfolding a_def b_def by (rule string_builder_length_bounds [OF that])
  have gen: "\<exists>s. v = VStr s \<and> a \<le> int (length s) \<and> int (length s) \<le> b"
    if "may_generate (FcStringBetween a b) v" for v
    using that by (simp split: jsvalue.splits)
  have main: "only_length_bounds cs \<longrightarrow>
      string_builder (Some cs) sid path = FcStringBetween a b \<and>
      (map_of ovs sid = None \<longrightarrow>
         inputOf call ovs (Schema sid ctor (DString (Some cs))) = Inr (FcStringBetween a b)) \<and>
      (\<forall>v. may_generate (string_builder (Some cs) sid path) v \<longrightarrow>
         (\<exists>s. v = VStr s \<and> a \<le> int (length s) \<and> int (length s) \<le> b))"
    using built top gen by (auto simp del: may_generate.simps)
  have absent_top: "map_of ovs sid = None \<longrightarrow>
      inputOf call ovs (Schema sid ctor (DString None)) = Inr FcString"
    using top [of None] by (simp add: absent)
  from main absent [of path] absent_top show ?thesis
    unfolding a_def b_def Let_def by (intro conjI)
qed

theorem string_length_bounds_witness:
  "string_builder (Some [MinLength 5, MaxLength 10]) 7 ''.name'' = FcStringBetween 5 10 \<and>
   inputOf constant_factories [] (Schema 7 ''ZodString'' (DString (Some [MinLength 5, MaxLength 10])))
     = Inr (FcStringBetween 5 10) \<and>
   \<not> may_generate (string_builder (Some [MinLength 5, MaxLength 10]) 7 ''.name'') (VStr ''four'') \<and>
   string_builder (Some [MinLength 3]) 7 ''.name'' = FcStringBetween 3 16"
  using string_length_bounds [of "[MinLength 5, MaxLength 10]" 7 "''.name''" "[]"
      constant_factories "''ZodString''"]
    string_length_bounds [of "[MinLength 3]" 7 "''.name''" "[]" constant_factories "''ZodString''"]
  by (simp add: Let_def)

section \<open>Properties of the number interpreter\<close>



text \<open>
  Claim C2. When a number schema resolves to a multiple-of factor and to bounds for which
  \<open>ceil(min / factor)\<close> exceeds \<open>floor(max / factor)\<close>, the quotients being the double
  quotients that the source computes, building its generator raises the generation
  error: the builder returns the error, not a generator, so nothing is left for sampling
  to find. The same holds for \<open>inputWithPath\<close> on a node that is not overridden. The
  message cites the path and the two integer bounds.
\<close>

theorem inverted_integer_bounds_raise:
  "number_resolve cs = Some st \<and> multipleOf st = Some factor \<and> quotients_finite st factor \<and>
   \<lceil>dbl (min_v st / factor)\<rceil> > \<lfloor>dbl (final_max st / factor)\<rfloor> \<longrightarrow>
     number_builder (Some cs) sid path =
       Inl (ZodFastCheckGenerationError
              (inverted_bounds_message path \<lceil>dbl (min_v st / factor)\<rceil> (integer_max st factor))) \<and>
     (map_of ovs sid = None \<longrightarrow>
        inputWithPath call ovs (Schema sid ctor (DNumber (Some cs))) path =
          number_builder (Some cs) sid path) \<and>
     Lit path \<in> set (inverted_bounds_message path \<lceil>dbl (min_v st / factor)\<rceil>
                        (integer_max st factor))"
proof (intro impI)
  assume h: "number_resolve cs = Some st \<and> multipleOf st = Some factor \<and> quotients_finite st factor \<and>
    \<lceil>dbl (min_v st / factor)\<rceil> > \<lfloor>dbl (final_max st / factor)\<rfloor>"
  have nz: "factor \<noteq> 0"
  proof
    assume "factor = 0"
    then show False using h by (simp add: dbl_def)
  qed
  have le: "integer_max st factor \<le> \<lfloor>dbl (final_max st / factor)\<rfloor>"
    by (simp add: integer_max_def)
  have base: "number_base st path =
      Inl (ZodFastCheckGenerationError
             (inverted_bounds_message path \<lceil>dbl (min_v st / factor)\<rceil> (integer_max st factor)))"
    using h nz le by (simp add: number_base_def Let_def)
  have top: "map_of ovs sid = None \<Longrightarrow>
      inputWithPath call ovs (Schema sid ctor (DNumber (Some cs))) path =
        number_builder (Some cs) sid path"
    by (simp add: inputWithPath_no_override builder_names_def del: inputWithPath.simps)
  show "number_builder (Some cs) sid path =
       Inl (ZodFastCheckGenerationError
              (inverted_bounds_message path \<lceil>dbl (min_v st / factor)\<rceil> (integer_max st factor))) \<and>
     (map_of ovs sid = None \<longrightarrow>
        inputWithPath call ovs (Schema sid ctor (DNumber (Some cs))) path =
          number_builder (Some cs) sid path) \<and>
     Lit path \<in> set (inverted_bounds_message path \<lceil>dbl (min_v st / factor)\<rceil>
                        (integer_max st factor))"
    using top h by (simp add: number_builder_def base inverted_bounds_message_def)
qed

text \<open>
  The doubles \<open>0.3\<close> and \<open>0.1\<close>: the quotient \<open>0.3 / 0.1\<close> is the double below 3, so a
  schema with \<open>min(0.3).max(0.3).multipleOf(0.1)\<close> has the integer bounds 3 and 2.
\<close>

theorem inverted_integer_bounds_raise_witness:
  "number_builder
     (Some [GreaterThan (dbl (3 / 10)) True, LessThan (dbl (3 / 10)) True, MultipleOf (dbl (1 / 10))])
     5 ''.n''
     = Inl (ZodFastCheckGenerationError (inverted_bounds_message ''.n'' 3 2)) \<and>
   inputWithPath constant_factories []
      (Schema 5 ''ZodNumber''
         (DNumber (Some [GreaterThan (dbl (3 / 10)) True, LessThan (dbl (3 / 10)) True,
                         MultipleOf (dbl (1 / 10))]))) ''.n''
     = Inl (ZodFastCheckGenerationError (inverted_bounds_message ''.n'' 3 2))"
proof -
  let ?cs = "[GreaterThan (dbl (3 / 10)) True, LessThan (dbl (3 / 10)) True, MultipleOf (dbl (1 / 10))]"
  let ?st = "\<lparr>min_v = dbl (3 / 10), max_v = Some (dbl (3 / 10)), hasExplicitMax = True,
              isFinite = True, multipleOf = Some (dbl (1 / 10)), hasSafeIntFormat = False,
              customChecks = []\<rparr>"
  have facts: "dbl (dbl (1 / 10)) = dbl (1 / 10)" "finite_double (dbl (1 / 10))"
      "- 1000000 \<le> dbl (3 / 10)"
    by code_simp+
  have res: "number_resolve ?cs = Some ?st"
    by (simp add: number_resolve_def number_init_def safe_int_range_def facts max_def Let_def)
  have hyp: "number_resolve ?cs = Some ?st \<and> multipleOf ?st = Some (dbl (1 / 10)) \<and>
      quotients_finite ?st (dbl (1 / 10)) \<and>
      \<lceil>dbl (min_v ?st / dbl (1 / 10))\<rceil> > \<lfloor>dbl (final_max ?st / dbl (1 / 10))\<rfloor>"
    by (intro conjI, rule res, simp) code_simp+
  have lo: "\<lceil>dbl (min_v ?st / dbl (1 / 10))\<rceil> = 3"
    by code_simp
  have hi: "integer_max ?st (dbl (1 / 10)) = 2"
    by code_simp
  have none: "map_of ([] :: overrides) 5 = None"
    by simp
  note t = inverted_integer_bounds_raise [of ?cs ?st "dbl (1 / 10)" 5 "''.n''" "[]"
      constant_factories "''ZodNumber''", THEN mp, OF hyp]
  show ?thesis
    using t none unfolding lo hi by (simp del: inputWithPath.simps)
qed

text \<open>
  The quotient of the doubles \<open>7 * 0.1\<close> and \<open>0.1\<close> is the double 7, where the quotient of
  the reals is above 7: the bounds are 7 and 7 and the builder returns a generator.
\<close>

lemma seven_tenths_is_built:
  "number_builder
     (Some [GreaterThan (dbl (7 * dbl (1 / 10))) True, LessThan (dbl (7 * dbl (1 / 10))) True,
            MultipleOf (dbl (1 / 10))]) 5 ''.n''
     = Inr (FcMap (FcInteger 7 7) (Times (dbl (1 / 10))))"
proof -
  let ?cs = "[GreaterThan (dbl (7 * dbl (1 / 10))) True, LessThan (dbl (7 * dbl (1 / 10))) True,
              MultipleOf (dbl (1 / 10))]"
  let ?st = "\<lparr>min_v = dbl (7 * dbl (1 / 10)), max_v = Some (dbl (7 * dbl (1 / 10))),
              hasExplicitMax = True, isFinite = True, multipleOf = Some (dbl (1 / 10)),
              hasSafeIntFormat = False, customChecks = []\<rparr>"
  have facts: "dbl (dbl (1 / 10)) = dbl (1 / 10)" "finite_double (dbl (1 / 10))"
      "- 1000000 \<le> dbl (7 * dbl (1 / 10))" "dbl (1 / 10) \<noteq> 0"
    by code_simp+
  have res: "number_resolve ?cs = Some ?st"
    by (simp add: number_resolve_def number_init_def safe_int_range_def facts max_def Let_def)
  have q: "quotients_finite ?st (dbl (1 / 10))"
    by code_simp
  have lo: "\<lceil>dbl (dbl (7 * dbl (1 / 10)) / dbl (1 / 10))\<rceil> = 7"
    by code_simp
  have hi: "integer_max ?st (dbl (1 / 10)) = 7"
    by code_simp
  have "number_base ?st ''.n'' = Inr (FcMap (FcInteger 7 7) (Times (dbl (1 / 10))))"
    using q facts(4) by (simp add: number_base_def Let_def lo hi)
  then show ?thesis
    by (simp add: number_builder_def res)
qed











section \<open>Properties of the refinement pattern detection\<close>

lemma modulo_probe_Some:
  "(\<exists>t \<in> set ts. fn (of_int t) = VBool True \<and> js_rem t 3 = 0) \<Longrightarrow>
   fn 1 = VBool False \<Longrightarrow> fn 2 = VBool False \<Longrightarrow> fn 4 = VBool False \<Longrightarrow>
   modulo_probe fn ts = Some 3"
  by (induction ts) auto

lemma try_modulo:
  assumes "\<exists>t \<in> set testValues. fn (of_int t) = VBool True \<and> js_rem t 3 = 0"
    and "fn 1 = VBool False" and "fn 2 = VBool False" and "fn 4 = VBool False"
    and "\<lceil>dbl (lo / 3)\<rceil> \<le> \<lfloor>dbl (hi / 3)\<rfloor>"
  shows "tryGenerateSmartlyForRefinement (Custom (Some fn)) lo hi =
           Some (FcMap (FcInteger \<lceil>dbl (lo / 3)\<rceil> \<lfloor>dbl (hi / 3)\<rfloor>) (Times 3))"
  using assms
  by (simp add: tryGenerateSmartlyForRefinement_def modulo_probe_Some Let_def)

lemma first_smart_append:
  "first_smart before lo hi = None \<Longrightarrow>
   first_smart (before @ rest) lo hi = first_smart rest lo hi"
  by (induction before) (simp_all split: option.splits)

lemma generated_multiples:
  "may_generate (FcMap (FcInteger lo hi) (Times 3)) v \<Longrightarrow>
   \<exists>k. lo \<le> k \<and> k \<le> hi \<and> v = VNum (dbl (of_int (3 * k)))"
  by (cases v) (auto simp: mult.commute)

lemma generated_multiples_exact:
  assumes "may_generate (FcMap (FcInteger lo hi) (Times 3)) v"
    and "- (2 ^ 53) \<le> 3 * lo" and "3 * hi \<le> 2 ^ 53"
  shows "\<exists>k. lo \<le> k \<and> k \<le> hi \<and> v = VNum (of_int (3 * k))"
proof -
  from generated_multiples [OF assms(1)]
  obtain k where k: "lo \<le> k" "k \<le> hi" "v = VNum (dbl (of_int (3 * k)))"
    by blast
  have "\<bar>3 * k\<bar> \<le> 2 ^ 53"
    using k(1,2) assms(2,3) by linarith
  then have "dbl (of_int (3 * k)) = of_int (3 * k)"
    by (rule dbl_of_int)
  then show ?thesis
    using k by auto
qed

lemma thirds: "\<lceil>dbl (- (1000000 / 3))\<rceil> = - 333333" "\<lfloor>dbl (1000000 / 3)\<rfloor> = 333333"
  "dbl (- (1000000 / 3)) \<le> 333333"
  "\<lceil>dbl (1 / 3)\<rceil> = 1" "\<lfloor>dbl (2 / 3)\<rfloor> = 0" "\<not> 1 \<le> dbl (2 / 3)"
  by code_simp+

lemma resolve_1_2_refined:
  "number_resolve [GreaterThan 1 True, LessThan 2 True, Custom (Some divisible_by_3)] =
     Some \<lparr>min_v = 1, max_v = Some 2, hasExplicitMax = True, isFinite = True,
           multipleOf = None, hasSafeIntFormat = False,
           customChecks = [Custom (Some divisible_by_3)]\<rparr>"
  by (simp add: number_resolve_def number_init_def safe_int_range_def Let_def)

text \<open>
  Claim C8, as stated, fails when the range holds no multiple of 3. The refinement
  \<open>x % 3 === 0\<close> on a number schema bounded by \<open>1\<close> and \<open>2\<close> is classified as divisible by 3,
  but \<open>ceil(1 / 3) = 1\<close> exceeds \<open>floor(2 / 3) = 0\<close>, the guard \<open>intMin <= intMax\<close> fails, no
  sentinel of the equality detection lies in the range, and the builder falls back to
  the doubles filtered by the schema under the success-rate guard.
\<close>

theorem divisible_by_3_empty_range_counterexample:
  "divisible_by_3 3 = VBool True \<and> divisible_by_3 1 = VBool False \<and>
   divisible_by_3 2 = VBool False \<and> divisible_by_3 4 = VBool False \<and>
   modulo_probe divisible_by_3 testValues = Some 3 \<and>
   number_builder (Some [GreaterThan 1 True, LessThan 2 True, Custom (Some divisible_by_3)]) 1 [] =
     Inr (FcFilter (FcFilter (FcDouble 1 2) NotTiny)
            (ThrowIfSuccessRateBelow MIN_SUCCESS_RATE (SafeParseSuccess 1) []))"
  by (simp add: number_builder_def resolve_1_2_refined number_base_def refinement_max_def
        tryGenerateSmartlyForRefinement_def testValues_def js_rem_def divisible_by_3_def thirds
        filterArbitraryBySchema_def MAX_SAFE_INTEGER_def Let_def)

text \<open>
  Claim C8, amended. Let the base generator of a number schema have been built without
  error, let one of its custom checks carry a predicate that accepts a multiple of 3
  among the sentinels and rejects 1, 2 and 4, let no pattern be detected for the custom
  checks before it, and let the adjusted range \<open>ceil(min / 3) .. floor(max / 3)\<close>, of
  double quotients, be non-empty. Then the predicate is classified as divisible by 3 and
  the builder returns \<open>fc.integer\<close> over the adjusted range mapped by \<open>x => x * 3\<close>, with
  no filter: every value it yields is the double product of 3 and an integer of the
  range, and is exactly 3 times that integer when the products of the range lie within
  \<open>-2^53\<close> and \<open>2^53\<close>.
\<close>

theorem divisible_by_3_generated_directly:
  "number_resolve cs = Some st \<and> number_base st path = Inr base \<and>
   customChecks st = before @ Custom (Some fn) # after \<and>
   first_smart before (min_v st) (refinement_max st) = None \<and>
   (\<exists>t \<in> set testValues. fn (of_int t) = VBool True \<and> js_rem t 3 = 0) \<and>
   fn 1 = VBool False \<and> fn 2 = VBool False \<and> fn 4 = VBool False \<and>
   \<lceil>dbl (min_v st / 3)\<rceil> \<le> \<lfloor>dbl (refinement_max st / 3)\<rfloor> \<longrightarrow>
     modulo_probe fn testValues = Some 3 \<and>
     number_builder (Some cs) sid path =
       Inr (FcMap (FcInteger \<lceil>dbl (min_v st / 3)\<rceil> \<lfloor>dbl (refinement_max st / 3)\<rfloor>) (Times 3)) \<and>
     (\<forall>v. may_generate
             (FcMap (FcInteger \<lceil>dbl (min_v st / 3)\<rceil> \<lfloor>dbl (refinement_max st / 3)\<rfloor>) (Times 3)) v \<longrightarrow>
          (\<exists>k. \<lceil>dbl (min_v st / 3)\<rceil> \<le> k \<and> k \<le> \<lfloor>dbl (refinement_max st / 3)\<rfloor> \<and>
               v = VNum (dbl (of_int (3 * k))))) \<and>
     (- (2 ^ 53) \<le> 3 * \<lceil>dbl (min_v st / 3)\<rceil> \<and> 3 * \<lfloor>dbl (refinement_max st / 3)\<rfloor> \<le> 2 ^ 53 \<longrightarrow>
        (\<forall>v. may_generate
                (FcMap (FcInteger \<lceil>dbl (min_v st / 3)\<rceil> \<lfloor>dbl (refinement_max st / 3)\<rfloor>) (Times 3)) v \<longrightarrow>
             (\<exists>k. \<lceil>dbl (min_v st / 3)\<rceil> \<le> k \<and> k \<le> \<lfloor>dbl (refinement_max st / 3)\<rfloor> \<and>
                  v = VNum (of_int (3 * k)))))"
proof (intro impI)
  let ?lo = "\<lceil>dbl (min_v st / 3)\<rceil>"
  let ?hi = "\<lfloor>dbl (refinement_max st / 3)\<rfloor>"
  assume h: "number_resolve cs = Some st \<and> number_base st path = Inr base \<and>
   customChecks st = before @ Custom (Some fn) # after \<and>
   first_smart before (min_v st) (refinement_max st) = None \<and>
   (\<exists>t \<in> set testValues. fn (of_int t) = VBool True \<and> js_rem t 3 = 0) \<and>
   fn 1 = VBool False \<and> fn 2 = VBool False \<and> fn 4 = VBool False \<and>
   ?lo \<le> ?hi"
  have probe: "modulo_probe fn testValues = Some 3"
    using h by (simp add: modulo_probe_Some)
  have "tryGenerateSmartlyForRefinement (Custom (Some fn)) (min_v st) (refinement_max st) =
      Some (FcMap (FcInteger ?lo ?hi) (Times 3))"
    using h by (intro try_modulo) simp_all
  then have "first_smart (customChecks st) (min_v st) (refinement_max st) =
      Some (FcMap (FcInteger ?lo ?hi) (Times 3))"
    using h by (simp add: first_smart_append)
  then have build: "number_builder (Some cs) sid path = Inr (FcMap (FcInteger ?lo ?hi) (Times 3))"
    using h by (simp add: number_builder_def Let_def)
  show "modulo_probe fn testValues = Some 3 \<and>
     number_builder (Some cs) sid path = Inr (FcMap (FcInteger ?lo ?hi) (Times 3)) \<and>
     (\<forall>v. may_generate (FcMap (FcInteger ?lo ?hi) (Times 3)) v \<longrightarrow>
          (\<exists>k. ?lo \<le> k \<and> k \<le> ?hi \<and> v = VNum (dbl (of_int (3 * k))))) \<and>
     (- (2 ^ 53) \<le> 3 * ?lo \<and> 3 * ?hi \<le> 2 ^ 53 \<longrightarrow>
        (\<forall>v. may_generate (FcMap (FcInteger ?lo ?hi) (Times 3)) v \<longrightarrow>
             (\<exists>k. ?lo \<le> k \<and> k \<le> ?hi \<and> v = VNum (of_int (3 * k)))))"
    using probe build generated_multiples generated_multiples_exact
    by (intro conjI impI allI) blast+
qed

lemma resolve_refined:
  "number_resolve [Custom (Some (\<lambda>x. VBool True)), Custom (Some divisible_by_3)] =
     Some \<lparr>min_v = - 1000000, max_v = None, hasExplicitMax = False, isFinite = False,
           multipleOf = None, hasSafeIntFormat = False,
           customChecks = [Custom (Some (\<lambda>x. VBool True)), Custom (Some divisible_by_3)]\<rparr>"
  by (simp add: number_resolve_def number_init_def safe_int_range_def)

text \<open>
  The refinement \<open>x % 3 === 0\<close> after a refinement that accepts every number: no pattern
  is detected for the first, the second is detected.
\<close>

theorem divisible_by_3_generated_directly_witness:
  "number_builder (Some [Custom (Some (\<lambda>x. VBool True)), Custom (Some divisible_by_3)]) 1 ''.n'' =
     Inr (FcMap (FcInteger (- 333333) 333333) (Times 3)) \<and>
   \<not> may_generate (FcMap (FcInteger (- 333333) 333333) (Times 3)) (VNum 1)"
proof -
  let ?cs = "[Custom (Some (\<lambda>x. VBool True)), Custom (Some divisible_by_3)]"
  let ?st = "\<lparr>min_v = - 1000000, max_v = None, hasExplicitMax = False, isFinite = False,
        multipleOf = None, hasSafeIntFormat = False,
        customChecks = [Custom (Some (\<lambda>x. VBool True)), Custom (Some divisible_by_3)]\<rparr>"
  have lo: "\<lceil>dbl (min_v ?st / 3)\<rceil> = - 333333"
    by (simp add: thirds)
  have hi: "\<lfloor>dbl (refinement_max ?st / 3)\<rfloor> = 333333"
    by (simp add: refinement_max_def thirds)
  have h: "number_resolve ?cs = Some ?st \<and>
      number_base ?st ''.n'' = Inr (FcFilter (FcDouble (- 1000000) 1000000) NotTiny) \<and>
      customChecks ?st = [Custom (Some (\<lambda>x. VBool True))] @ Custom (Some divisible_by_3) # [] \<and>
      first_smart [Custom (Some (\<lambda>x. VBool True))] (min_v ?st) (refinement_max ?st) = None \<and>
      (\<exists>t \<in> set testValues. divisible_by_3 (of_int t) = VBool True \<and> js_rem t 3 = 0) \<and>
      divisible_by_3 1 = VBool False \<and> divisible_by_3 2 = VBool False \<and>
      divisible_by_3 4 = VBool False \<and>
      \<lceil>dbl (min_v ?st / 3)\<rceil> \<le> \<lfloor>dbl (refinement_max ?st / 3)\<rfloor>"
    unfolding lo hi
    by (simp add: resolve_refined divisible_by_3_def testValues_def js_rem_def
          refinement_max_def number_base_def tryGenerateSmartlyForRefinement_def)
  note t = divisible_by_3_generated_directly [of ?cs ?st "''.n''"
      "FcFilter (FcDouble (- 1000000) 1000000) NotTiny"
      "[Custom (Some (\<lambda>x. VBool True))]" divisible_by_3 "[]" 1, THEN mp, OF h, unfolded lo hi]
  have built: "number_builder (Some ?cs) 1 ''.n'' =
      Inr (FcMap (FcInteger (- 333333) 333333) (Times 3))"
    using t by blast
  have exact: "\<forall>v. may_generate (FcMap (FcInteger (- 333333) 333333) (Times 3)) v \<longrightarrow>
      (\<exists>k. - 333333 \<le> k \<and> k \<le> 333333 \<and> v = VNum (of_int (3 * k)))"
    using t [THEN conjunct2, THEN conjunct2, THEN conjunct2] by simp
  have "\<not> may_generate (FcMap (FcInteger (- 333333) 333333) (Times 3)) (VNum 1)"
  proof
    assume "may_generate (FcMap (FcInteger (- 333333) 333333) (Times 3)) (VNum 1)"
    with exact obtain k :: int where "VNum 1 = VNum (of_int (3 * k))"
      by blast
    then have "(of_int (3 * k) :: rat) = of_int 1"
      by simp
    then have "3 * k = 1"
      by (simp only: of_int_eq_iff)
    then show False
      by presburger
  qed
  with built show ?thesis
    by (simp del: may_generate.simps)
qed

section \<open>Properties of repeated checks\<close>

text \<open>
  The loop of the number builder never loosens a bound it has computed.
\<close>

lemma number_check_min_never_loosens:
  "number_check st c = Some st' \<Longrightarrow> min_v st \<le> min_v st'"
  by (cases c) (auto simp: Let_def split: if_splits)

lemma number_check_max_never_loosens:
  "number_check st c = Some st' \<Longrightarrow> max_v st = Some m \<Longrightarrow> \<exists>m'. max_v st' = Some m' \<and> m' \<le> m"
  by (cases c) (auto simp: Let_def split: if_splits)

text \<open>
  Claim C3 does not hold of the array and the set builder: their loops assign the value
  of each check, so the last check of a kind wins, where the string and the number
  builder take the maximum of the minima and the minimum of the maxima. An array schema
  with the checks \<open>min_length 5, min_length 2\<close> compiles to arrays of length 2 or more,
  and a set schema with \<open>max_size 3, max_size 8\<close> to sets of up to 8 elements; the string
  builder resolves \<open>min_length 5, min_length 2\<close> to the minimum length 5.
\<close>

theorem array_set_last_check_wins:
  "array_bounds (Some [MinLength 5, MinLength 2]) = (2, None) \<and>
   array_bounds (Some [MaxLength 3, MaxLength 8]) = (0, Some 8) \<and>
   set_bounds (Some [MinSize 5, MinSize 2]) = (2, None) \<and>
   set_bounds (Some [MaxSize 3, MaxSize 8]) = (0, Some 8) \<and>
   inputOf constant_factories []
      (Schema 1 ''ZodArray'' (DArray (Schema 2 ''ZodBoolean'' DBoolean) (Some [MinLength 5, MinLength 2])))
     = Inr (FcArrayBetween FcBoolean 2 None) \<and>
   string_builder (Some [MinLength 5, MinLength 2]) 3 [] = FcStringBetween 5 20"
  by (simp add: array_bounds_def set_bounds_def inputOf_def findOverride_def isFirstPartyType_def
        builder_names_def then_arb_def string_builder_def string_init_def hasEmailFormat_def)

section \<open>Properties of the override registry\<close>

text \<open>The heap before the first instance is well formed, and allocation keeps it so.\<close>

lemma empty_heap_wf: "wf_heap \<lparr>next_ref = 0, tables = (\<lambda>r. [])\<rparr>"
  by (simp add: wf_heap_def)

lemma new_ZodFastCheck_wf: "wf_heap h \<Longrightarrow> wf_heap (snd (new_ZodFastCheck h))"
  by (simp add: wf_heap_def new_ZodFastCheck_def)

lemma update_new_key:
  "k \<notin> fst ` set ys \<Longrightarrow> AList.update k v ys = ys @ [(k, v)]"
  by (induction ys) auto

lemma foldl_update_distinct:
  "distinct (map fst (ys @ xs)) \<Longrightarrow>
   foldl (\<lambda>m e. AList.update (fst e) (snd e) m) ys xs = ys @ xs"
proof (induction xs arbitrary: ys)
  case Nil
  show ?case by simp
next
  case (Cons x xs)
  have new: "fst x \<notin> fst ` set ys"
    using Cons.prems by auto
  have "distinct (map fst ((ys @ [x]) @ xs))"
    using Cons.prems by simp
  from Cons.IH [OF this] show ?case
    by (simp add: update_new_key [OF new])
qed

lemma foldl_overrides_set:
  "foldl (\<lambda>hp entry. overrides_set hp c (fst entry) (snd entry)) h xs =
     h\<lparr>tables := (tables h)(c := foldl (\<lambda>m e. AList.update (fst e) (snd e) m) (tables h c) xs)\<rparr>"
  by (induction xs arbitrary: h) (simp_all add: overrides_set_def)

text \<open>The clone is a new instance whose table is a copy of the table of \<open>this\<close>.\<close>

lemma clone_copies:
  assumes "wf_heap h" and "this < next_ref h"
  shows "clone h this =
     (next_ref h, h\<lparr>next_ref := Suc (next_ref h), tables := (tables h)(next_ref h := tables h this)\<rparr>)"
proof -
  have d: "distinct (map fst ([] @ tables h this))"
    using assms(1) by (simp add: wf_heap_def)
  show ?thesis
    using assms(2) foldl_update_distinct [OF d]
    by (simp add: clone_def new_ZodFastCheck_def foldl_overrides_set)
qed

lemma override_result:
  assumes "wf_heap h" and "this < next_ref h"
  shows "override h this schema arb =
     (next_ref h,
      h\<lparr>next_ref := Suc (next_ref h),
        tables := (tables h)(next_ref h := AList.update (node_id schema) arb (tables h this))\<rparr>)"
  by (simp add: override_def clone_copies [OF assms] overrides_set_def)

text \<open>
  Claim C6. On a well-formed heap, \<open>override\<close> called on an allocated instance returns a
  new instance, different from \<open>this\<close>. The table of \<open>this\<close> and of every other instance
  is what it was. The table of the new instance maps the identity of the schema to the
  given generator or factory, and every other identity to what the table of \<open>this\<close> maps
  it to: a node built like the overridden one, but another node, has the entry it had,
  or none. The heap stays well formed.
\<close>

theorem override_copy_on_write:
  "wf_heap h \<and> this < next_ref h \<longrightarrow>
     (case override h this schema arb of
        (withOverride, h') \<Rightarrow>
          withOverride \<noteq> this \<and>
          tables h' this = tables h this \<and>
          (\<forall>r. r \<noteq> withOverride \<longrightarrow> tables h' r = tables h r) \<and>
          map_of (tables h' withOverride) (node_id schema) = Some arb \<and>
          (\<forall>other. node_id other \<noteq> node_id schema \<longrightarrow>
             map_of (tables h' withOverride) (node_id other) = map_of (tables h this) (node_id other)) \<and>
          wf_heap h')"
proof (intro impI)
  assume a: "wf_heap h \<and> this < next_ref h"
  then have wf: "wf_heap h" and alloc: "this < next_ref h" by simp_all
  have wf': "wf_heap
      (h\<lparr>next_ref := Suc (next_ref h),
         tables := (tables h)(next_ref h := AList.update (node_id schema) arb (tables h this))\<rparr>)"
    using wf by (auto simp: wf_heap_def distinct_update)
  show "case override h this schema arb of
        (withOverride, h') \<Rightarrow>
          withOverride \<noteq> this \<and>
          tables h' this = tables h this \<and>
          (\<forall>r. r \<noteq> withOverride \<longrightarrow> tables h' r = tables h r) \<and>
          map_of (tables h' withOverride) (node_id schema) = Some arb \<and>
          (\<forall>other. node_id other \<noteq> node_id schema \<longrightarrow>
             map_of (tables h' withOverride) (node_id other) = map_of (tables h this) (node_id other)) \<and>
          wf_heap h'"
    using alloc wf' by (simp add: override_result [OF wf alloc] update_conv')
qed

text \<open>
  Two string nodes built alike, \<open>8\<close> and \<open>9\<close>: overriding \<open>8\<close> leaves \<open>9\<close> without an
  override in the new instance, and the first instance as it was.
\<close>

theorem override_copy_on_write_witness:
  "fst (override example_heap 0 (Schema 8 ''ZodString'' (DString None)) (Arbitrary FcBoolean)) = 1 \<and>
   tables (snd (override example_heap 0 (Schema 8 ''ZodString'' (DString None)) (Arbitrary FcBoolean))) 0
     = [(7, Arbitrary FcUuid)] \<and>
   tables (snd (override example_heap 0 (Schema 8 ''ZodString'' (DString None)) (Arbitrary FcBoolean))) 1
     = [(7, Arbitrary FcUuid), (8, Arbitrary FcBoolean)] \<and>
   findOverride constant_factories
     (tables (snd (override example_heap 0 (Schema 8 ''ZodString'' (DString None))
                     (Arbitrary FcBoolean))) 1)
     (Schema 9 ''ZodString'' (DString None)) = None"
  using override_copy_on_write [of example_heap 0
      "Schema 8 ''ZodString'' (DString None)" "Arbitrary FcBoolean"]
  by (simp add: example_heap_def wf_heap_def override_def clone_def new_ZodFastCheck_def
        overrides_set_def findOverride_def)

end
